theory Spec2Isabelle
  imports Main
begin

section \<open>The booking handler of src/app.js (POST /api/book)\<close>

text \<open>
  The handler is one asynchronous JavaScript function. It talks to a FHIR server through
  \<^verbatim>\<open>fetch\<close>, keeps an in-process map \<^verbatim>\<open>bookingLocks\<close> and answers the caller
  through \<^verbatim>\<open>res\<close>. The embedding makes these effects explicit:
  \<^item> the outside world (the FHIR server and \<^verbatim>\<open>jwt.verify\<close>) is a record of functions,
    one per call site of the handler, from the requested URL (relative to
    \<^verbatim>\<open>FHIR_BASE\<close>) to what the awaited call gives back;
  \<^item> every awaited call is logged, in order, in a list of calls;
  \<^item> an early \<^verbatim>\<open>return res.status(..)\<close> and a \<^verbatim>\<open>throw\<close> (also the TypeError of
    reading a member of \<^verbatim>\<open>undefined\<close>, a rejected \<^verbatim>\<open>fetch\<close> and a rejected
    \<^verbatim>\<open>.json()\<close>) are values of the type \<open>exit\<close>;
  \<^item> \<^verbatim>\<open>bookingLocks\<close> is passed in and returned.
  JSON bodies are typed: a body that parses is an object whose members of interest have
  the FHIR type (a string, a number, an array of objects) or are absent (\<open>None\<close>, the
  JavaScript \<^verbatim>\<open>undefined\<close>). Reading an error body with \<^verbatim>\<open>.text()\<close> is taken to
  succeed. The user-facing messages of the source are constructors of \<open>reason\<close>,
  \<open>error\<close> and \<open>message\<close>.
\<close>

subsection \<open>JavaScript strings\<close>

text \<open>A template literal prints an absent value as the word undefined.\<close>

definition js_str :: "string option \<Rightarrow> string" where
  "js_str x = (case x of None \<Rightarrow> ''undefined'' | Some s \<Rightarrow> s)"

text \<open>\<^verbatim>\<open>!x\<close> on a string or undefined: only a non-empty string is truthy.\<close>

definition truthy :: "string option \<Rightarrow> bool" where
  "truthy x = (case x of None \<Rightarrow> False | Some s \<Rightarrow> s \<noteq> [])"

definition startsWith :: "string \<Rightarrow> string \<Rightarrow> bool" where
  "startsWith s p = (take (length p) s = p)"

text \<open>\<^verbatim>\<open>s.split(c)\<close> for a one-character separator, and \<^verbatim>\<open>xs[i]\<close>.\<close>

fun split_on :: "char \<Rightarrow> string \<Rightarrow> string list" where
  "split_on c [] = [[]]"
| "split_on c (x # xs) =
     (if x = c then [] # split_on c xs
      else (case split_on c xs of [] \<Rightarrow> [[x]] | w # ws \<Rightarrow> (x # w) # ws))"

definition at_index :: "'a list \<Rightarrow> nat \<Rightarrow> 'a option" where
  "at_index xs i = (if i < length xs then Some (xs ! i) else None)"

text \<open>
  \<^verbatim>\<open>encodeURIComponent\<close> on a string read as UTF-8 bytes: the unreserved characters stay,
  every other byte becomes a percent sign and two upper-case hexadecimal digits.
\<close>

definition unreserved :: "char \<Rightarrow> bool" where
  "unreserved c =
     (c \<in> set ''ABCDEFGHIJKLMNOPQRSTUVWXYZabcdefghijklmnopqrstuvwxyz0123456789-_.!~*()''
      \<or> c = CHR 0x27)"

definition hex_digit :: "nat \<Rightarrow> char" where
  "hex_digit n = ''0123456789ABCDEF'' ! (n mod 16)"

definition encode_char :: "char \<Rightarrow> string" where
  "encode_char c =
     (if unreserved c then [c]
      else [CHR ''%'', hex_digit (of_char c div 16), hex_digit (of_char c)])"

definition encodeURIComponent :: "string \<Rightarrow> string" where
  "encodeURIComponent s = concat (map encode_char s)"

subsection \<open>FHIR resources as the handler reads and writes them\<close>

datatype ref = Ref (reference: "string option")

text \<open>
  A Slot. \<open>sl_rest\<close> stands for every member the handler never names; the object
  spread \<^verbatim>\<open>{ ...newSlot, status: "busy" }\<close> copies all members and overwrites one, which
  is a record update.
\<close>

record slot =
  sl_id :: "string option"
  sl_start :: "string option"
  sl_end :: "string option"
  sl_status :: "string option"
  sl_schedule :: "ref option"
  sl_rest :: "(string \<times> string) list"

record schedule =
  sc_actor :: "ref list option"

record practitioner_role =
  pr_organization :: "ref option"

record patient =
  pt_id :: "string option"

record participant =
  pa_actor :: "ref option"
  pa_status :: "string option"

record appointment =
  ap_id :: "string option"
  ap_status :: "string option"
  ap_slot :: "ref list option"
  ap_supportingInformation :: "ref list option"
  ap_start :: "string option"
  ap_end :: "string option"
  ap_participant :: "participant list option"

text \<open>
  A search result: \<open>bd_total\<close> is the member \<^verbatim>\<open>total\<close>, \<open>bd_entry\<close> the member
  \<^verbatim>\<open>entry\<close>, each element given by its member \<^verbatim>\<open>resource\<close>.
\<close>

record 'r searchset =
  bd_total :: "int option"
  bd_entry :: "'r option list option"

subsection \<open>The transaction bundle and its result\<close>

datatype http_method = PUT | DELETE | POST

datatype resource = SlotResource slot | AppointmentResource appointment

record tx_entry =
  en_resource :: "resource option"
  en_method :: http_method
  en_url :: string

record tx_response =
  rs_status :: "string option"
  rs_location :: "string option"

text \<open>The result bundle: each element of \<^verbatim>\<open>entry\<close> given by its member \<^verbatim>\<open>response\<close>.\<close>

record tx_result =
  tr_entry :: "tx_response option list option"

subsection \<open>The outside world\<close>

text \<open>What an awaited \<^verbatim>\<open>fetch\<close> resolves to; \<open>json = None\<close> when \<^verbatim>\<open>.json()\<close> rejects.\<close>

record 'a response =
  ok :: bool
  statusText :: string
  json :: "'a option"

datatype verified = BadToken | Payload (payload_id: "string option")

text \<open>
  One function per call site, from the URL after \<^verbatim>\<open>FHIR_BASE/\<close> (for the transaction,
  from the posted entries). \<open>None\<close> is a rejected \<^verbatim>\<open>fetch\<close>.
\<close>

record world =
  jwt_verify :: "string \<Rightarrow> verified"
  get_slot :: "string \<Rightarrow> slot response option"
  get_schedule :: "string \<Rightarrow> schedule response option"
  search_role :: "string \<Rightarrow> practitioner_role searchset response option"
  search_patient :: "string \<Rightarrow> patient searchset response option"
  search_appointment :: "string \<Rightarrow> appointment searchset response option"
  get_old_slot :: "string \<Rightarrow> slot response option"
  post_transaction :: "tx_entry list \<Rightarrow> tx_result response option"

datatype call = Fetch string | Submit "tx_entry list"

record request =
  body_slotId :: "string option"
  cookie_token :: "string option"

subsection \<open>Replies and exits\<close>

datatype error =
    ActorNotPractitioner string
  | RoleFetchFailed string
  | RoleNotFound string
  | OrganizationMissing string
  | PatientSearchFailed string
  | TransactionFailed string
  | CreatedEntryMissing
  | TypeError
  | FetchRejected
  | JsonRejected

datatype reason =
    MissingSlotId
  | SlotBeingProcessed
  | NotLoggedIn
  | TokenInvalid
  | SlotNotFound
  | ScheduleNotFound
  | PatientNotFound
  | Thrown error

datatype message = BookingCreated | BookingUpdated

datatype body = Error reason | Success message "string option"

datatype http_response = Reply (status: nat) (body: body)

datatype exit = Return http_response | Throw error

type_synonym 'a step = "(exit + 'a) \<times> call list"

definition pure :: "'a \<Rightarrow> 'a step" where
  "pure v = (Inr v, [])"

definition throw :: "error \<Rightarrow> 'a step" where
  "throw e = (Inl (Throw e), [])"

definition reply :: "nat \<Rightarrow> reason \<Rightarrow> 'a step" where
  "reply code r = (Inl (Return (Reply code (Error r))), [])"

text \<open>Sequencing: the first exit ends the run; the calls made so far are kept.\<close>

definition and_then :: "'a step \<Rightarrow> ('a \<Rightarrow> 'b step) \<Rightarrow> 'b step" where
  "and_then m f =
     (case m of
        (Inl x, cs) \<Rightarrow> (Inl x, cs)
      | (Inr v, cs) \<Rightarrow> (case f v of (r, cs') \<Rightarrow> (r, cs @ cs')))"

definition fetch :: "(string \<Rightarrow> 'a response option) \<Rightarrow> string \<Rightarrow> 'a response step" where
  "fetch server url =
     (case server url of
        None \<Rightarrow> (Inl (Throw FetchRejected), [Fetch url])
      | Some r \<Rightarrow> (Inr r, [Fetch url]))"

definition read_json :: "'a response \<Rightarrow> 'a step" where
  "read_json r = (case json r of None \<Rightarrow> throw JsonRejected | Some v \<Rightarrow> pure v)"

text \<open>\<^verbatim>\<open>bundle.entry[0].resource\<close>, with the TypeError of each absent link.\<close>

definition first_resource :: "'r searchset \<Rightarrow> 'r step" where
  "first_resource b =
     (case bd_entry b of
        None \<Rightarrow> throw TypeError
      | Some [] \<Rightarrow> throw TypeError
      | Some (None # _) \<Rightarrow> throw TypeError
      | Some (Some r # _) \<Rightarrow> pure r)"

subsection \<open>Steps 1 to 5: who is calling, and the chain behind the slot\<close>

definition authenticate :: "world \<Rightarrow> request \<Rightarrow> string option step" where
  "authenticate w req =
     (case cookie_token req of
        None \<Rightarrow> reply 401 NotLoggedIn
      | Some token \<Rightarrow>
          if token = [] then reply 401 NotLoggedIn
          else (case jwt_verify w token of
                  BadToken \<Rightarrow> reply 401 TokenInvalid
                | Payload personId \<Rightarrow> pure personId))"

definition fetch_new_slot :: "world \<Rightarrow> string \<Rightarrow> slot step" where
  "fetch_new_slot w slotId =
     and_then (fetch (get_slot w) (''Slot/'' @ slotId)) (\<lambda>newSlotRes.
       if \<not> ok newSlotRes then reply 404 SlotNotFound
       else read_json newSlotRes)"

text \<open>Gives \<^verbatim>\<open>scheduleRef\<close> and \<^verbatim>\<open>actorRef\<close>.\<close>

definition fetch_schedule :: "world \<Rightarrow> slot \<Rightarrow> (string option \<times> string option) step" where
  "fetch_schedule w newSlot =
     (case sl_schedule newSlot of
        None \<Rightarrow> throw TypeError
      | Some (Ref scheduleRef) \<Rightarrow>
          and_then (fetch (get_schedule w) (js_str scheduleRef)) (\<lambda>scheduleRes.
            if \<not> ok scheduleRes then reply 404 ScheduleNotFound
            else and_then (read_json scheduleRes) (\<lambda>schedule.
              (case sc_actor schedule of
                 None \<Rightarrow> throw TypeError
               | Some [] \<Rightarrow> throw TypeError
               | Some (actor # _) \<Rightarrow> pure (scheduleRef, reference actor)))))"

definition require_practitioner :: "string option \<Rightarrow> string step" where
  "require_practitioner actorRef =
     (case actorRef of
        None \<Rightarrow> throw TypeError
      | Some a \<Rightarrow>
          if \<not> startsWith a ''Practitioner/'' then throw (ActorNotPractitioner a)
          else pure a)"

definition role_search_url :: "string \<Rightarrow> string" where
  "role_search_url actorRef = ''PractitionerRole?practitioner='' @ encodeURIComponent actorRef"

text \<open>Gives \<^verbatim>\<open>organizationId\<close>.\<close>

definition find_organization :: "world \<Rightarrow> string \<Rightarrow> string option step" where
  "find_organization w actorRef =
     and_then (fetch (search_role w) (role_search_url actorRef)) (\<lambda>prRoleRes.
         if \<not> ok prRoleRes then throw (RoleFetchFailed actorRef)
         else and_then (read_json prRoleRes) (\<lambda>prRoleBundle.
           if bd_total prRoleBundle = Some 0 then throw (RoleNotFound actorRef)
           else and_then (first_resource prRoleBundle) (\<lambda>role.
             (case pr_organization role of
                None \<Rightarrow> throw (OrganizationMissing actorRef)
              | Some (Ref orgRef) \<Rightarrow>
                  (case orgRef of
                     None \<Rightarrow> throw (OrganizationMissing actorRef)
                   | Some r \<Rightarrow>
                       if r = [] then throw (OrganizationMissing actorRef)
                       else pure (at_index (split_on CHR ''/'' r) 1))))))"

definition patient_search_url :: "string option \<Rightarrow> string option \<Rightarrow> string" where
  "patient_search_url personId organizationId =
     ''Patient?identifier=http://example.org/fhir/person|''
       @ encodeURIComponent (js_str personId)
       @ ''&organization=Organization/'' @ js_str organizationId"

text \<open>Gives \<^verbatim>\<open>patientRef\<close>.\<close>

definition find_patient :: "world \<Rightarrow> string option \<Rightarrow> string option \<Rightarrow> string step" where
  "find_patient w personId organizationId =
     and_then (fetch (search_patient w) (patient_search_url personId organizationId))
       (\<lambda>pSearchRes.
         if \<not> ok pSearchRes then throw (PatientSearchFailed (statusText pSearchRes))
         else and_then (read_json pSearchRes) (\<lambda>pSearchBundle.
           if bd_total pSearchBundle = None \<or> bd_total pSearchBundle = Some 0
           then reply 404 PatientNotFound
           else and_then (first_resource pSearchBundle) (\<lambda>p.
             pure (''Patient/'' @ js_str (pt_id p)))))"

record resolved =
  r_newSlot :: slot
  r_scheduleRef :: "string option"
  r_actorRef :: string
  r_patientRef :: string

definition resolve :: "world \<Rightarrow> request \<Rightarrow> string \<Rightarrow> resolved step" where
  "resolve w req slotId =
     and_then (authenticate w req) (\<lambda>personId.
     and_then (fetch_new_slot w slotId) (\<lambda>newSlot.
     and_then (fetch_schedule w newSlot) (\<lambda>(scheduleRef, actor).
     and_then (require_practitioner actor) (\<lambda>actorRef.
     and_then (find_organization w actorRef) (\<lambda>organizationId.
     and_then (find_patient w personId organizationId) (\<lambda>patientRef.
       pure \<lparr>r_newSlot = newSlot, r_scheduleRef = scheduleRef,
             r_actorRef = actorRef, r_patientRef = patientRef\<rparr>))))))"

subsection \<open>Steps 6 to 8: the booked appointment this one replaces\<close>

definition existing_appt_url :: "string \<Rightarrow> string option \<Rightarrow> string" where
  "existing_appt_url patientRef scheduleRef =
     ''Appointment?patient='' @ encodeURIComponent patientRef
       @ ''&supporting-information='' @ encodeURIComponent (js_str scheduleRef)
       @ ''&status=booked''"

definition put_slot :: "string \<Rightarrow> slot \<Rightarrow> string \<Rightarrow> tx_entry" where
  "put_slot url s st =
     \<lparr>en_resource = Some (SlotResource (s\<lparr>sl_status := Some st\<rparr>)),
      en_method = PUT, en_url = url\<rparr>"

definition delete_entry :: "string \<Rightarrow> tx_entry" where
  "delete_entry url = \<lparr>en_resource = None, en_method = DELETE, en_url = url\<rparr>"

text \<open>The entry that frees the old slot, when there is one to push.\<close>

definition free_old_slot :: "world \<Rightarrow> string option \<Rightarrow> tx_entry list step" where
  "free_old_slot w oldSlotRef =
     (case oldSlotRef of
        None \<Rightarrow> pure []
      | Some r \<Rightarrow>
          if r = [] then pure []
          else and_then (fetch (get_old_slot w) r) (\<lambda>oldSlotRes.
            if ok oldSlotRes
            then and_then (read_json oldSlotRes) (\<lambda>oldSlot.
                   pure [put_slot r oldSlot ''free''])
            else pure []))"

definition positive :: "int option \<Rightarrow> bool" where
  "positive n = (case n of None \<Rightarrow> False | Some k \<Rightarrow> k > 0)"

text \<open>Gives the entries pushed before the new booking, and the message.\<close>

definition replace_existing :: "world \<Rightarrow> resolved \<Rightarrow> (tx_entry list \<times> message) step" where
  "replace_existing w r =
     and_then (fetch (search_appointment w)
                 (existing_appt_url (r_patientRef r) (r_scheduleRef r)))
       (\<lambda>existingApptRes.
         and_then (read_json existingApptRes) (\<lambda>existingApptBundle.
           if positive (bd_total existingApptBundle)
           then and_then (first_resource existingApptBundle) (\<lambda>oldAppointment.
                  (case ap_slot oldAppointment of
                     None \<Rightarrow> throw TypeError
                   | Some [] \<Rightarrow> throw TypeError
                   | Some (Ref oldSlotRef # _) \<Rightarrow>
                       and_then (free_old_slot w oldSlotRef) (\<lambda>freed.
                         pure (freed @ [delete_entry (''Appointment/''
                                          @ js_str (ap_id oldAppointment))],
                               BookingUpdated))))
           else pure ([], BookingCreated)))"

subsection \<open>Step 9: the new booking\<close>

definition new_appointment :: "string \<Rightarrow> resolved \<Rightarrow> appointment" where
  "new_appointment slotId r =
     \<lparr>ap_id = None,
      ap_status = Some ''booked'',
      ap_slot = Some [Ref (Some (''Slot/'' @ slotId))],
      ap_supportingInformation = Some [Ref (r_scheduleRef r)],
      ap_start = sl_start (r_newSlot r),
      ap_end = sl_end (r_newSlot r),
      ap_participant = Some
        [\<lparr>pa_actor = Some (Ref (Some (r_patientRef r))), pa_status = Some ''accepted''\<rparr>,
         \<lparr>pa_actor = Some (Ref (Some (r_actorRef r))), pa_status = Some ''accepted''\<rparr>]\<rparr>"

definition create_entry :: "appointment \<Rightarrow> tx_entry" where
  "create_entry a =
     \<lparr>en_resource = Some (AppointmentResource a), en_method = POST,
      en_url = ''Appointment''\<rparr>"

definition new_entries :: "string \<Rightarrow> resolved \<Rightarrow> tx_entry list" where
  "new_entries slotId r =
     [create_entry (new_appointment slotId r),
      put_slot (''Slot/'' @ slotId) (r_newSlot r) ''busy'']"

subsection \<open>Step 10: the transaction\<close>

text \<open>
  \<^verbatim>\<open>entry.find(e => e.response && e.response.status.startsWith('201'))\<close>: the first
  match, or the TypeError of a response without a status met before it.
\<close>

fun find_created :: "tx_response option list \<Rightarrow> error + tx_response option" where
  "find_created [] = Inr None"
| "find_created (None # es) = find_created es"
| "find_created (Some r # es) =
     (case rs_status r of
        None \<Rightarrow> Inl TypeError
      | Some s \<Rightarrow> if startsWith s ''201'' then Inr (Some r) else find_created es)"

definition execute :: "world \<Rightarrow> tx_entry list \<Rightarrow> message \<Rightarrow> http_response step" where
  "execute w entries msg =
     (case post_transaction w entries of
        None \<Rightarrow> (Inl (Throw FetchRejected), [Submit entries])
      | Some txRes \<Rightarrow>
          and_then (Inr txRes, [Submit entries]) (\<lambda>txRes.
            if \<not> ok txRes then throw (TransactionFailed (statusText txRes))
            else and_then (read_json txRes) (\<lambda>txResult.
              (case tr_entry txResult of
                 None \<Rightarrow> throw TypeError
               | Some es \<Rightarrow>
                   (case find_created es of
                      Inl e \<Rightarrow> throw e
                    | Inr None \<Rightarrow> throw CreatedEntryMissing
                    | Inr (Some newAppointmentEntry) \<Rightarrow>
                        (case rs_location newAppointmentEntry of
                           None \<Rightarrow> throw TypeError
                         | Some location \<Rightarrow>
                             pure (Reply 200 (Success msg
                                     (at_index (split_on CHR ''/'' location) 1)))))))))"

subsection \<open>The handler\<close>

text \<open>The body of the \<^verbatim>\<open>try\<close> block.\<close>

definition guarded :: "world \<Rightarrow> request \<Rightarrow> string \<Rightarrow> http_response step" where
  "guarded w req slotId =
     and_then (resolve w req slotId) (\<lambda>r.
     and_then (replace_existing w r) (\<lambda>(prior, msg).
       execute w (prior @ new_entries slotId r) msg))"

text \<open>What the caller is sent: the \<^verbatim>\<open>catch\<close> block turns a throw into a 500.\<close>

definition settle :: "exit + http_response \<Rightarrow> http_response" where
  "settle x =
     (case x of
        Inr r \<Rightarrow> r
      | Inl (Return r) \<Rightarrow> r
      | Inl (Throw e) \<Rightarrow> Reply 500 (Error (Thrown e)))"

type_synonym locks = "string \<rightharpoonup> bool"

text \<open>
  The lines before the \<^verbatim>\<open>try\<close>: they run without an \<^verbatim>\<open>await\<close>, so as one step.
  Either the request is answered at once, or the key is set.
\<close>

definition acquire :: "locks \<Rightarrow> request \<Rightarrow> http_response + (string \<times> locks)" where
  "acquire bookingLocks req =
     (if \<not> truthy (body_slotId req) then Inl (Reply 400 (Error MissingSlotId))
      else let slotId = js_str (body_slotId req) in
        if slotId \<in> dom bookingLocks then Inl (Reply 409 (Error SlotBeingProcessed))
        else Inr (slotId, bookingLocks(slotId \<mapsto> True)))"

text \<open>The \<^verbatim>\<open>finally\<close> block.\<close>

definition release :: "locks \<Rightarrow> string \<Rightarrow> locks" where
  "release bookingLocks slotId = bookingLocks(slotId := None)"

text \<open>One whole run: the reply, the locks afterwards, the calls made.\<close>

definition book :: "locks \<Rightarrow> world \<Rightarrow> request \<Rightarrow> http_response \<times> locks \<times> call list" where
  "book bookingLocks w req =
     (case acquire bookingLocks req of
        Inl r \<Rightarrow> (r, bookingLocks, [])
      | Inr (slotId, held) \<Rightarrow>
          (case guarded w req slotId of
             (x, calls) \<Rightarrow> (settle x, release held slotId, calls)))"

text \<open>
  Runs of different requests interleave at every \<^verbatim>\<open>await\<close>, so a run can find keys
  set by runs that have not finished. These are the lock maps the process can be in.
\<close>

inductive reachable :: "locks \<Rightarrow> bool" where
  start: "reachable Map.empty"
| enter: "reachable l \<Longrightarrow> acquire l req = Inr (slotId, l') \<Longrightarrow> reachable l'"
| leave: "reachable l \<Longrightarrow> reachable (release l slotId)"

text \<open>The classes of a reply, by its status code.\<close>

definition client_class :: "http_response \<Rightarrow> bool" where
  "client_class r = (400 \<le> status r \<and> status r < 500)"

definition server_class :: "http_response \<Rightarrow> bool" where
  "server_class r = (500 \<le> status r \<and> status r < 600)"

text \<open>An exit that tells the caller of a failure.\<close>

fun failure :: "exit \<Rightarrow> bool" where
  "failure (Throw e) = True"
| "failure (Return (Reply c (Error r))) = True"
| "failure (Return (Reply c (Success m a))) = False"

text \<open>A step whose every exit tells the caller of a failure.\<close>

definition exits_fail :: "'a step \<Rightarrow> bool" where
  "exits_fail m = (case fst m of Inl x \<Rightarrow> failure x | Inr v \<Rightarrow> True)"



text \<open>The transactions a run submitted.\<close>

fun submitted :: "call list \<Rightarrow> tx_entry list list" where
  "submitted [] = []"
| "submitted (Fetch _ # cs) = submitted cs"
| "submitted (Submit es # cs) = es # submitted cs"

subsection \<open>The reservations on the server\<close>

text \<open>
  Modelled from the spec: the FHIR server is an external service, consumed through the
  operations of section 6. Its reservations are a list of Appointment resources. The
  search "reservations filtered by (patient reference, schedule reference,
  status=booked)" gives those that \<open>booked_for\<close> holds of; the atomic transaction applies
  its entries in order: a DELETE removes the reservation the URL names, a POST of an
  Appointment adds it under a new id, and a PUT of a Slot leaves the reservations as
  they are.
\<close>

definition list_of :: "'a list option \<Rightarrow> 'a list" where
  "list_of x = (case x of None \<Rightarrow> [] | Some xs \<Rightarrow> xs)"

definition booked_for :: "string \<Rightarrow> string \<Rightarrow> appointment \<Rightarrow> bool" where
  "booked_for patientRef scheduleRef a =
     (ap_status a = Some ''booked''
      \<and> Ref (Some scheduleRef) \<in> set (list_of (ap_supportingInformation a))
      \<and> Some (Ref (Some patientRef)) \<in> set (map pa_actor (list_of (ap_participant a))))"

definition search_result :: "'r list \<Rightarrow> 'r searchset" where
  "search_result found =
     \<lparr>bd_total = Some (int (length found)), bd_entry = Some (map Some found)\<rparr>"

definition apply_entry :: "string \<Rightarrow> tx_entry \<Rightarrow> appointment list \<Rightarrow> appointment list" where
  "apply_entry newId e store =
     (case en_method e of
        DELETE \<Rightarrow> filter (\<lambda>a. ''Appointment/'' @ js_str (ap_id a) \<noteq> en_url e) store
      | POST \<Rightarrow>
          (case en_resource e of
             Some (AppointmentResource a) \<Rightarrow> store @ [a\<lparr>ap_id := Some newId\<rparr>]
           | _ \<Rightarrow> store)
      | PUT \<Rightarrow> store)"

definition apply_tx :: "string \<Rightarrow> tx_entry list \<Rightarrow> appointment list \<Rightarrow> appointment list" where
  "apply_tx newId entries store = fold (apply_entry newId) entries store"

subsection \<open>A clinic to run the handler on\<close>

text \<open>
  Schedule sch1 of practitioner dr1, who works for org1; slots s1 and s2 on it; person
  u1 is patient p1 of org1 and holds reservation r1 on slot s1.
\<close>

definition found :: "'a \<Rightarrow> 'a response option" where
  "found v = Some \<lparr>ok = True, statusText = ''OK'', json = Some v\<rparr>"

definition not_found :: "'a response option" where
  "not_found = Some \<lparr>ok = False, statusText = ''Not Found'', json = None\<rparr>"

definition slot_s1 :: slot where
  "slot_s1 = \<lparr>sl_id = Some ''s1'', sl_start = Some ''09:00'', sl_end = Some ''09:30'',
     sl_status = Some ''busy'', sl_schedule = Some (Ref (Some ''Schedule/sch1'')),
     sl_rest = [(''resourceType'', ''Slot'')]\<rparr>"

definition slot_s2 :: slot where
  "slot_s2 = \<lparr>sl_id = Some ''s2'', sl_start = Some ''09:30'', sl_end = Some ''10:00'',
     sl_status = Some ''free'', sl_schedule = Some (Ref (Some ''Schedule/sch1'')),
     sl_rest = [(''resourceType'', ''Slot'')]\<rparr>"

definition appt_r1 :: appointment where
  "appt_r1 = \<lparr>ap_id = Some ''r1'', ap_status = Some ''booked'',
     ap_slot = Some [Ref (Some ''Slot/s1'')],
     ap_supportingInformation = Some [Ref (Some ''Schedule/sch1'')],
     ap_start = Some ''09:00'', ap_end = Some ''09:30'',
     ap_participant = Some
       [\<lparr>pa_actor = Some (Ref (Some ''Patient/p1'')), pa_status = Some ''accepted''\<rparr>,
        \<lparr>pa_actor = Some (Ref (Some ''Practitioner/dr1'')), pa_status = Some ''accepted''\<rparr>]\<rparr>"

definition tx_created :: "string \<Rightarrow> tx_entry list \<Rightarrow> tx_result response option" where
  "tx_created newId entries = found \<lparr>tr_entry = Some (map (\<lambda>e.
     (case en_method e of
        POST \<Rightarrow> Some \<lparr>rs_status = Some ''201 Created'',
                      rs_location = Some (''Appointment/'' @ newId @ ''/_history/1'')\<rparr>
      | PUT \<Rightarrow> Some \<lparr>rs_status = Some ''200 OK'', rs_location = Some (en_url e)\<rparr>
      | DELETE \<Rightarrow> Some \<lparr>rs_status = Some ''204 No Content'', rs_location = None\<rparr>))
     entries)\<rparr>"

definition tx_ok :: "tx_entry list \<Rightarrow> tx_result response option" where
  "tx_ok entries = tx_created ''r2'' entries"

definition clinic :: world where
  "clinic = \<lparr>
     jwt_verify = (\<lambda>t. if t = ''token-u1'' then Payload (Some ''u1'') else BadToken),
     get_slot = (\<lambda>u. if u = ''Slot/s2'' then found slot_s2
                      else if u = ''Slot/s1'' then found slot_s1 else not_found),
     get_schedule = (\<lambda>u. if u = ''Schedule/sch1''
                          then found \<lparr>sc_actor = Some [Ref (Some ''Practitioner/dr1'')]\<rparr>
                          else not_found),
     search_role = (\<lambda>u. if u = ''PractitionerRole?practitioner=Practitioner%2Fdr1''
                         then found (search_result
                                [\<lparr>pr_organization = Some (Ref (Some ''Organization/org1''))\<rparr>])
                         else found (search_result [])),
     search_patient = (\<lambda>u.
        if u = ''Patient?identifier=http://example.org/fhir/person|u1&organization=Organization/org1''
        then found (search_result [\<lparr>pt_id = Some ''p1''\<rparr>])
        else found (search_result [])),
     search_appointment = (\<lambda>u.
        found (search_result (filter (\<lambda>a. existing_appt_url ''Patient/p1''
                 (Some ''Schedule/sch1'') = u) [appt_r1]))),
     get_old_slot = (\<lambda>u. if u = ''Slot/s1'' then found slot_s1 else not_found),
     post_transaction = tx_ok\<rparr>"

definition req_s2 :: request where
  "req_s2 = \<lparr>body_slotId = Some ''s2'', cookie_token = Some ''token-u1''\<rparr>"

definition req_s9 :: request where
  "req_s9 = \<lparr>body_slotId = Some ''s9'', cookie_token = Some ''token-u1''\<rparr>"

text \<open>What the chain behind slot s2 resolves to for person u1.\<close>

definition clinic_resolved :: resolved where
  "clinic_resolved = \<lparr>r_newSlot = slot_s2, r_scheduleRef = Some ''Schedule/sch1'',
     r_actorRef = ''Practitioner/dr1'', r_patientRef = ''Patient/p1''\<rparr>"

definition chain_calls :: "call list" where
  "chain_calls =
     [Fetch ''Slot/s2'', Fetch ''Schedule/sch1'',
      Fetch ''PractitionerRole?practitioner=Practitioner%2Fdr1'',
      Fetch ''Patient?identifier=http://example.org/fhir/person|u1&organization=Organization/org1'']"

definition search_call :: call where
  "search_call =
     Fetch ''Appointment?patient=Patient%2Fp1&supporting-information=Schedule%2Fsch1&status=booked''"

definition clinic_calls :: "call list" where
  "clinic_calls = chain_calls @ [search_call]"

text \<open>The same clinic with one thing changed.\<close>

definition clinic_room :: world where
  "clinic_room = clinic\<lparr>get_schedule :=
     (\<lambda>u. found \<lparr>sc_actor = Some [Ref (Some ''Location/room1'')]\<rparr>)\<rparr>"

definition clinic_no_role :: world where
  "clinic_no_role = clinic\<lparr>search_role := (\<lambda>u. found (search_result []))\<rparr>"

definition clinic_slot_gone :: world where
  "clinic_slot_gone = clinic\<lparr>get_old_slot := (\<lambda>u. not_found)\<rparr>"

definition clinic_s2_taken :: world where
  "clinic_s2_taken = clinic\<lparr>get_slot :=
     (\<lambda>u. if u = ''Slot/s2'' then found (slot_s2\<lparr>sl_status := Some ''busy''\<rparr>)
           else get_slot clinic u)\<rparr>"

definition clinic_no_schedule :: world where
  "clinic_no_schedule = clinic\<lparr>get_schedule := (\<lambda>u. not_found)\<rparr>"

definition clinic_no_patient :: world where
  "clinic_no_patient = clinic\<lparr>search_patient := (\<lambda>u. found (search_result []))\<rparr>"

definition clinic_tx_rejected :: world where
  "clinic_tx_rejected = clinic\<lparr>post_transaction :=
     (\<lambda>es. Some \<lparr>ok = False, statusText = ''Bad Request'', json = None\<rparr>)\<rparr>"

definition clinic_tx_silent :: world where
  "clinic_tx_silent = clinic\<lparr>post_transaction :=
     (\<lambda>es. found \<lparr>tr_entry = Some [Some \<lparr>rs_status = Some ''200 OK'', rs_location = None\<rparr>]\<rparr>)\<rparr>"

text \<open>What the server of the clinic answers to the transaction of the run above.\<close>

definition clinic_results :: "tx_response option list" where
  "clinic_results =
     [Some \<lparr>rs_status = Some ''200 OK'', rs_location = Some ''Slot/s1''\<rparr>,
      Some \<lparr>rs_status = Some ''204 No Content'', rs_location = None\<rparr>,
      Some \<lparr>rs_status = Some ''201 Created'',
             rs_location = Some ''Appointment/r2/_history/1''\<rparr>,
      Some \<lparr>rs_status = Some ''200 OK'', rs_location = Some ''Slot/s2''\<rparr>]"

text \<open>
  The reservations on the server of the clinic: r1, and q7 of another patient, who holds
  slot s2.
\<close>

definition appt_q7 :: appointment where
  "appt_q7 = \<lparr>ap_id = Some ''q7'', ap_status = Some ''booked'',
     ap_slot = Some [Ref (Some ''Slot/s2'')],
     ap_supportingInformation = Some [Ref (Some ''Schedule/sch1'')],
     ap_start = Some ''09:30'', ap_end = Some ''10:00'',
     ap_participant = Some
       [\<lparr>pa_actor = Some (Ref (Some ''Patient/p2'')), pa_status = Some ''accepted''\<rparr>,
        \<lparr>pa_actor = Some (Ref (Some ''Practitioner/dr1'')), pa_status = Some ''accepted''\<rparr>]\<rparr>"

definition clinic_store :: "appointment list" where
  "clinic_store = [appt_r1, appt_q7]"

text \<open>
  A third slot on the same schedule, and the clinic as two runs of person u1 see it when
  both read before either writes: the conflict search finds nothing for either.
\<close>

definition slot_s3 :: slot where
  "slot_s3 = \<lparr>sl_id = Some ''s3'', sl_start = Some ''10:00'', sl_end = Some ''10:30'',
     sl_status = Some ''free'', sl_schedule = Some (Ref (Some ''Schedule/sch1'')),
     sl_rest = [(''resourceType'', ''Slot'')]\<rparr>"

definition req_s3 :: request where
  "req_s3 = \<lparr>body_slotId = Some ''s3'', cookie_token = Some ''token-u1''\<rparr>"

definition clinic_racing :: world where
  "clinic_racing = clinic\<lparr>
     get_slot := (\<lambda>u. if u = ''Slot/s3'' then found slot_s3 else get_slot clinic u),
     search_appointment := (\<lambda>u. found (search_result [])),
     post_transaction := (\<lambda>es. if map en_url es = [''Appointment'', ''Slot/s3'']
                                then tx_created ''r3'' es else tx_created ''r2'' es)\<rparr>"

definition resolved_s3 :: resolved where
  "resolved_s3 = clinic_resolved\<lparr>r_newSlot := slot_s3\<rparr>"

text \<open>The clinic whose conflict search fails: the answer is not ok and has no total.\<close>

definition clinic_search_down :: world where
  "clinic_search_down = clinic\<lparr>search_appointment :=
     (\<lambda>u. Some \<lparr>ok = False, statusText = ''Internal Server Error'',
                  json = Some \<lparr>bd_total = None, bd_entry = None\<rparr>\<rparr>)\<rparr>"

text \<open>The clinic whose server answers 201 to the update of the old slot as well.\<close>

definition put_created_results :: "tx_response option list" where
  "put_created_results =
     [Some \<lparr>rs_status = Some ''201 Created'', rs_location = Some ''Slot/s1/_history/1''\<rparr>,
      Some \<lparr>rs_status = Some ''204 No Content'', rs_location = None\<rparr>,
      Some \<lparr>rs_status = Some ''201 Created'',
             rs_location = Some ''Appointment/r2/_history/1''\<rparr>,
      Some \<lparr>rs_status = Some ''200 OK'', rs_location = Some ''Slot/s2''\<rparr>]"

definition clinic_put_created :: world where
  "clinic_put_created = clinic\<lparr>post_transaction :=
     (\<lambda>es. found \<lparr>tr_entry = Some put_created_results\<rparr>)\<rparr>"

section \<open>Properties of the handler\<close>

subsection \<open>Sequencing\<close>

lemma and_then_Inl [simp]: "and_then (Inl x, cs) f = (Inl x, cs)"
  by (simp add: and_then_def)

lemma and_then_Inr [simp]: "and_then (Inr v, cs) f = (fst (f v), cs @ snd (f v))"
  by (simp add: and_then_def split: prod.splits)

lemma and_then_pure [simp]: "and_then (pure v) f = f v"
  by (simp add: pure_def)

lemma and_then_throw [simp]: "and_then (throw e) f = throw e"
  by (simp add: throw_def)

lemma and_then_reply [simp]: "and_then (reply c r) f = reply c r"
  by (simp add: reply_def)

lemma and_then_cases:
  "and_then m f = (x, cs) \<longleftrightarrow>
     (\<exists>e. m = (Inl e, cs) \<and> x = Inl e) \<or>
     (\<exists>v c1 c2. m = (Inr v, c1) \<and> f v = (x, c2) \<and> cs = c1 @ c2)"
  by (cases m; cases "fst m") (auto simp: and_then_def split: prod.splits)

lemma fst_and_then_Inr:
  "fst (and_then m f) = Inr y \<longleftrightarrow> (\<exists>v. fst m = Inr v \<and> fst (f v) = Inr y)"
  by (cases m; cases "fst m") (auto simp: and_then_def split: prod.splits)


lemma submitted_append [simp]: "submitted (cs @ ds) = submitted cs @ submitted ds"
  by (induction cs rule: submitted.induct) simp_all

subsection \<open>Only the last step submits a transaction\<close>

lemma quiet_and_then:
  assumes "submitted (snd m) = []" and "\<And>v. submitted (snd (f v)) = []"
  shows "submitted (snd (and_then m f)) = []"
proof (cases m)
  case (Pair x cs)
  then show ?thesis using assms by (cases x) simp_all
qed

lemma quiet_pure [simp]: "submitted (snd (pure v)) = []"
  by (simp add: pure_def)

lemma quiet_throw [simp]: "submitted (snd (throw e)) = []"
  by (simp add: throw_def)

lemma quiet_reply [simp]: "submitted (snd (reply c r)) = []"
  by (simp add: reply_def)

lemma quiet_fetch [simp]: "submitted (snd (fetch server url)) = []"
  by (simp add: fetch_def split: option.splits)

lemma quiet_read_json [simp]: "submitted (snd (read_json r)) = []"
  by (simp add: read_json_def split: option.splits)

lemma quiet_first_resource [simp]: "submitted (snd (first_resource b)) = []"
  by (simp add: first_resource_def split: option.splits list.splits)

lemma quiet_authenticate [simp]: "submitted (snd (authenticate w req)) = []"
  by (simp add: authenticate_def split: option.splits verified.splits)

lemma quiet_fetch_new_slot [simp]: "submitted (snd (fetch_new_slot w slotId)) = []"
  unfolding fetch_new_slot_def by (rule quiet_and_then) simp_all

lemma quiet_fetch_schedule [simp]: "submitted (snd (fetch_schedule w newSlot)) = []"
  unfolding fetch_schedule_def
  by (auto split: option.splits ref.splits list.splits intro!: quiet_and_then)

lemma quiet_require_practitioner [simp]: "submitted (snd (require_practitioner a)) = []"
  by (simp add: require_practitioner_def split: option.splits)

lemma quiet_find_organization [simp]: "submitted (snd (find_organization w a)) = []"
  unfolding find_organization_def
  by (auto split: option.splits ref.splits list.splits intro!: quiet_and_then)

lemma quiet_find_patient [simp]: "submitted (snd (find_patient w p org)) = []"
  unfolding find_patient_def
  by (auto split: option.splits intro!: quiet_and_then)

lemma quiet_resolve [simp]: "submitted (snd (resolve w req slotId)) = []"
  unfolding resolve_def
  by (auto intro!: quiet_and_then)

lemma quiet_free_old_slot [simp]: "submitted (snd (free_old_slot w r)) = []"
  unfolding free_old_slot_def
  by (auto split: option.splits intro!: quiet_and_then)

lemma quiet_replace_existing [simp]: "submitted (snd (replace_existing w r)) = []"
  unfolding replace_existing_def
  by (auto split: option.splits ref.splits list.splits intro!: quiet_and_then)

lemma submitted_execute [simp]: "submitted (snd (execute w es msg)) = [es]"
  by (auto simp: execute_def read_json_def throw_def pure_def
      split: option.splits sum.splits)

subsection \<open>The exits of the conflict search are failures\<close>

lemma exits_fail_and_then:
  assumes "exits_fail m" and "\<And>v. exits_fail (f v)"
  shows "exits_fail (and_then m f)"
proof (cases m)
  case (Pair x cs)
  then show ?thesis using assms
    by (cases x) (auto simp: exits_fail_def split: sum.splits)
qed

lemma exits_fail_pure [simp]: "exits_fail (pure v)"
  by (simp add: exits_fail_def pure_def)

lemma exits_fail_throw [simp]: "exits_fail (throw e)"
  by (simp add: exits_fail_def throw_def)

lemma exits_fail_reply [simp]: "exits_fail (reply c r)"
  by (simp add: exits_fail_def reply_def)

lemma exits_fail_fetch [simp]: "exits_fail (fetch server url)"
  by (simp add: exits_fail_def fetch_def split: option.splits)

lemma exits_fail_read_json [simp]: "exits_fail (read_json r)"
  by (simp add: read_json_def split: option.splits)

lemma exits_fail_first_resource [simp]: "exits_fail (first_resource b)"
  by (simp add: first_resource_def split: option.splits list.splits)

lemma exits_fail_free_old_slot [simp]: "exits_fail (free_old_slot w x)"
  unfolding free_old_slot_def
  by (auto split: option.splits intro!: exits_fail_and_then)

lemma exits_fail_replace_existing: "exits_fail (replace_existing w r)"
  unfolding replace_existing_def
  by (auto split: option.splits ref.splits list.splits intro!: exits_fail_and_then)

lemma fails_replace_existing: "replace_existing w r = (Inl e, cs) \<Longrightarrow> failure e"
  using exits_fail_replace_existing[of w r] by (simp add: exits_fail_def)

lemma settle_failure: "failure e \<Longrightarrow> settle (Inl e) \<noteq> Reply c (Success m a)"
  by (cases e rule: failure.cases) (simp_all add: settle_def)

subsection \<open>The lock map\<close>

lemma acquire_Inr:
  "acquire locks req = Inr (slotId, held) \<longleftrightarrow>
     body_slotId req = Some slotId \<and> slotId \<noteq> [] \<and> slotId \<notin> dom locks
     \<and> held = locks(slotId \<mapsto> True)"
  by (auto simp: acquire_def truthy_def js_str_def Let_def split: option.splits)

lemma release_acquired:
  "acquire locks req = Inr (slotId, held) \<Longrightarrow> release held slotId = locks"
  by (auto simp: acquire_Inr release_def)

lemma reachable_no_empty_key: "reachable l \<Longrightarrow> [] \<notin> dom l"
  by (induction rule: reachable.induct) (auto simp: acquire_Inr release_def split: if_splits)

lemma book_acquired:
  assumes "acquire locks req = Inr (slotId, held)"
  shows "book locks w req
         = (settle (fst (guarded w req slotId)), locks, snd (guarded w req slotId))"
  using assms release_acquired[OF assms] by (simp add: book_def split: prod.splits)

lemma book_rejected:
  "acquire locks req = Inl r \<Longrightarrow> book locks w req = (r, locks, [])"
  by (simp add: book_def)

subsection \<open>The shape of a run\<close>

lemma guarded_cases:
  assumes "guarded w req slotId = (x, calls)"
  shows "(\<exists>e. resolve w req slotId = (Inl e, calls) \<and> x = Inl e)
       \<or> (\<exists>r cs e cs2. resolve w req slotId = (Inr r, cs)
             \<and> replace_existing w r = (Inl e, cs2) \<and> x = Inl e \<and> calls = cs @ cs2)
       \<or> (\<exists>r cs prior msg cs2 cs3. resolve w req slotId = (Inr r, cs)
             \<and> replace_existing w r = (Inr (prior, msg), cs2)
             \<and> execute w (prior @ new_entries slotId r) msg = (x, cs3)
             \<and> calls = cs @ cs2 @ cs3)"
  using assms unfolding guarded_def and_then_cases by fastforce

lemma submitted_run:
  assumes run: "book locks w req = (resp, locks', calls)"
    and sub: "es \<in> set (submitted calls)"
  obtains slotId held r cs prior msg cs2 x cs3 where
    "acquire locks req = Inr (slotId, held)"
    "resolve w req slotId = (Inr r, cs)"
    "replace_existing w r = (Inr (prior, msg), cs2)"
    "execute w es msg = (x, cs3)"
    "es = prior @ new_entries slotId r"
    "resp = settle x" "calls = cs @ cs2 @ cs3" "submitted calls = [es]"
proof (cases "acquire locks req")
  case (Inl r)
  then show ?thesis using run sub by (simp add: book_rejected)
next
  case (Inr p)
  obtain slotId held where p: "p = (slotId, held)" by (cases p)
  have acq: "acquire locks req = Inr (slotId, held)" using Inr p by simp
  obtain x where g: "guarded w req slotId = (x, calls)" and resp: "resp = settle x"
    using run book_acquired[OF acq, of w] by (cases "guarded w req slotId") auto
  from guarded_cases[OF g] consider
      (a) e where "resolve w req slotId = (Inl e, calls)"
    | (b) r cs e cs2 where "resolve w req slotId = (Inr r, cs)"
        "replace_existing w r = (Inl e, cs2)" "calls = cs @ cs2"
    | (c) r cs prior msg cs2 cs3 where "resolve w req slotId = (Inr r, cs)"
        "replace_existing w r = (Inr (prior, msg), cs2)"
        "execute w (prior @ new_entries slotId r) msg = (x, cs3)"
        "calls = cs @ cs2 @ cs3"
    by blast
  then show ?thesis
  proof cases
    case a
    have "submitted (snd (resolve w req slotId)) = []" by simp
    then show ?thesis using a sub by simp
  next
    case b
    have "submitted (snd (resolve w req slotId)) = []"
      "submitted (snd (replace_existing w r)) = []" by simp_all
    then show ?thesis using b sub by simp
  next
    case c
    have q: "submitted (snd (resolve w req slotId)) = []"
      "submitted (snd (replace_existing w r)) = []"
      "submitted (snd (execute w (prior @ new_entries slotId r) msg))
         = [prior @ new_entries slotId r]" by simp_all
    have s: "submitted calls = [prior @ new_entries slotId r]" using c q by simp
    then have "es = prior @ new_entries slotId r" using sub by simp
    then show ?thesis using that[OF acq c(1) c(2) _ _ resp c(4)] c(3) s by simp
  qed
qed

lemma resolve_steps:
  assumes "authenticate w req = (Inr personId, c0)"
    and "fetch_new_slot w slotId = (Inr newSlot, c1)"
    and "fetch_schedule w newSlot = (Inr (scheduleRef, actor), c2)"
  shows "resolve w req slotId =
     (case and_then (require_practitioner actor) (\<lambda>actorRef.
             and_then (find_organization w actorRef) (\<lambda>organizationId.
             and_then (find_patient w personId organizationId) (\<lambda>patientRef.
               pure \<lparr>r_newSlot = newSlot, r_scheduleRef = scheduleRef,
                     r_actorRef = actorRef, r_patientRef = patientRef\<rparr>)))
      of (x, cs) \<Rightarrow> (x, c0 @ c1 @ c2 @ cs))"
  using assms by (simp add: resolve_def split: prod.splits)

lemma reply_of_exit:
  assumes "acquire locks req = Inr (slotId, held)"
    and "fst (resolve w req slotId) = Inl x"
  shows "fst (book locks w req) = settle (Inl x)"
proof -
  obtain cs where "resolve w req slotId = (Inl x, cs)"
    using assms(2) by (cases "resolve w req slotId") simp
  then have "guarded w req slotId = (Inl x, cs)" by (simp add: guarded_def)
  then show ?thesis by (simp add: book_acquired[OF assms(1)])
qed

lemma reply_of_execute:
  assumes "acquire locks req = Inr (slotId, held)"
    and "resolve w req slotId = (Inr r, cs)"
    and "replace_existing w r = (Inr (prior, msg), cs2)"
  shows "fst (book locks w req)
         = settle (fst (execute w (prior @ new_entries slotId r) msg))"
  using assms(2,3) by (simp add: book_acquired[OF assms(1)] guarded_def)

lemma free_old_slot_Inr:
  assumes "free_old_slot w oldSlotRef = (Inr freed, c)"
  shows "(freed = [] \<and> (\<not> truthy oldSlotRef
            \<or> (\<exists>u rsp. oldSlotRef = Some u \<and> get_old_slot w u = Some rsp \<and> \<not> ok rsp)))
       \<or> (\<exists>u rsp s. oldSlotRef = Some u \<and> u \<noteq> [] \<and> get_old_slot w u = Some rsp
            \<and> ok rsp \<and> json rsp = Some s \<and> freed = [put_slot u s ''free''])"
  using assms
  by (auto simp: free_old_slot_def truthy_def fetch_def read_json_def pure_def throw_def
      split: option.splits if_splits)

lemma replace_existing_found:
  assumes "replace_existing w r = (Inr (prior, msg), cs2)"
    and "search_appointment w (existing_appt_url (r_patientRef r) (r_scheduleRef r)) = Some rs"
    and "json rs = Some b" and "positive (bd_total b)"
  shows "\<exists>old rest oldSlotRef rest' freed c.
           bd_entry b = Some (Some old # rest)
         \<and> ap_slot old = Some (Ref oldSlotRef # rest')
         \<and> free_old_slot w oldSlotRef = (Inr freed, c)
         \<and> prior = freed @ [delete_entry (''Appointment/'' @ js_str (ap_id old))]
         \<and> msg = BookingUpdated"
  using assms
  by (auto simp: replace_existing_def fetch_def read_json_def first_resource_def pure_def
      throw_def fst_and_then_Inr prod_eq_iff split: option.splits list.splits ref.splits)

lemma replace_existing_none:
  assumes "replace_existing w r = (Inr (prior, msg), cs2)"
    and "search_appointment w (existing_appt_url (r_patientRef r) (r_scheduleRef r)) = Some rs"
    and "json rs = Some b" and "\<not> positive (bd_total b)"
  shows "prior = [] \<and> msg = BookingCreated"
  using assms
  by (auto simp: replace_existing_def fetch_def read_json_def pure_def throw_def)






subsection \<open>The status of the target slot\<close>

lemma put_slot_status [simp]: "put_slot url (s\<lparr>sl_status := x\<rparr>) st = put_slot url s st"
  by (simp add: put_slot_def)

lemma fetch_schedule_status [simp]:
  "fetch_schedule w (s\<lparr>sl_status := x\<rparr>) = fetch_schedule w s"
  by (simp add: fetch_schedule_def)

lemma replace_existing_status [simp]:
  "replace_existing w \<lparr>r_newSlot = s\<lparr>sl_status := x\<rparr>, r_scheduleRef = a,
                        r_actorRef = b, r_patientRef = c\<rparr>
   = replace_existing w \<lparr>r_newSlot = s, r_scheduleRef = a, r_actorRef = b,
                          r_patientRef = c\<rparr>"
  by (simp add: replace_existing_def)




subsection \<open>Transactions on the server's reservations\<close>

lemma apply_put [simp]: "apply_entry n (put_slot u s st) store = store"
  by (simp add: apply_entry_def put_slot_def)

lemma apply_delete [simp]:
  "apply_entry n (delete_entry u) store
   = filter (\<lambda>a. ''Appointment/'' @ js_str (ap_id a) \<noteq> u) store"
  by (simp add: apply_entry_def delete_entry_def)

lemma apply_create [simp]:
  "apply_entry n (create_entry a) store = store @ [a\<lparr>ap_id := Some n\<rparr>]"
  by (simp add: apply_entry_def create_entry_def)

lemma new_appointment_booked:
  "r_scheduleRef r = Some s \<Longrightarrow>
   booked_for (r_patientRef r) s ((new_appointment slotId r)\<lparr>ap_id := Some n\<rparr>)"
  by (simp add: booked_for_def new_appointment_def list_of_def)

lemma filter_after_delete:
  assumes "filter P store = [old]"
  shows "filter P (filter (\<lambda>a. f a \<noteq> f old) store) = []"
proof -
  have "filter P (filter (\<lambda>a. f a \<noteq> f old) store)
        = filter (\<lambda>a. f a \<noteq> f old) (filter P store)"
    by (induction store) auto
  then show ?thesis using assms by simp
qed

subsection \<open>Runs at the clinic\<close>

lemmas handler_defs =
  book_def acquire_def release_def guarded_def resolve_def and_then_def authenticate_def
  fetch_new_slot_def fetch_schedule_def require_practitioner_def find_organization_def
  find_patient_def patient_search_url_def role_search_url_def replace_existing_def existing_appt_url_def
  free_old_slot_def positive_def execute_def settle_def pure_def throw_def reply_def
  fetch_def read_json_def first_resource_def truthy_def js_str_def startsWith_def
  at_index_def encodeURIComponent_def encode_char_def unreserved_def hex_digit_def Let_def

lemmas clinic_defs =
  clinic_def clinic_room_def clinic_no_role_def clinic_slot_gone_def clinic_s2_taken_def
  clinic_no_schedule_def clinic_no_patient_def clinic_tx_rejected_def clinic_tx_silent_def
  req_s2_def req_s9_def found_def not_found_def slot_s1_def slot_s2_def
  appt_r1_def tx_ok_def tx_created_def resolved_s3_def search_result_def clinic_resolved_def clinic_calls_def chain_calls_def search_call_def
  clinic_results_def appt_q7_def clinic_store_def slot_s3_def req_s3_def clinic_racing_def
  clinic_search_down_def put_created_results_def clinic_put_created_def
  new_entries_def new_appointment_def create_entry_def put_slot_def delete_entry_def

lemma acquire_s2: "acquire Map.empty req_s2 = Inr (''s2'', [''s2'' \<mapsto> True])"
  by (simp add: acquire_def truthy_def js_str_def req_s2_def Let_def)

lemma acquire_s9: "acquire Map.empty req_s9 = Inr (''s9'', [''s9'' \<mapsto> True])"
  by (simp add: acquire_def truthy_def js_str_def req_s9_def Let_def)

lemma auth_s9: "authenticate clinic req_s9 = (Inr (Some ''u1''), [])"
  by (simp add: handler_defs clinic_defs)

lemma resolve_clinic: "resolve clinic req_s2 ''s2'' = (Inr clinic_resolved, chain_calls)"
  by (simp add: handler_defs clinic_defs)

lemma clinic_run:
  "book Map.empty clinic req_s2 =
     (Reply 200 (Success BookingUpdated (Some ''r2'')), Map.empty,
      clinic_calls @ [Fetch ''Slot/s1'',
        Submit ([put_slot ''Slot/s1'' slot_s1 ''free'', delete_entry ''Appointment/r1'']
                @ new_entries ''s2'' clinic_resolved)])"
  by (simp add: handler_defs clinic_defs)

lemma run_slot_gone:
  "book Map.empty clinic_slot_gone req_s2 =
     (Reply 200 (Success BookingUpdated (Some ''r2'')), Map.empty,
      clinic_calls @ [Fetch ''Slot/s1'',
        Submit (delete_entry ''Appointment/r1'' # new_entries ''s2'' clinic_resolved)])"
  by (simp add: handler_defs clinic_defs)


lemma run_racing_s3:
  "book Map.empty clinic_racing req_s3 =
     (Reply 200 (Success BookingCreated (Some ''r3'')), Map.empty,
      [Fetch ''Slot/s3''] @ tl clinic_calls @ [Submit (new_entries ''s3'' resolved_s3)])"
  by (simp add: handler_defs clinic_defs)

lemma run_racing_s2:
  "book [''s3'' \<mapsto> True] clinic_racing req_s2 =
     (Reply 200 (Success BookingCreated (Some ''r2'')), [''s3'' \<mapsto> True],
      clinic_calls @ [Submit (new_entries ''s2'' clinic_resolved)])"
  by (simp add: handler_defs clinic_defs fun_upd_twist)

section \<open>The claims\<close>

text \<open>
  Claim C1, as amended. Take a server whose reservations are \<open>store\<close>, with at most
  one booked reservation for the resolved patient and the resolved schedule, and whose
  answer to the conflict query of the run is the search result of exactly those
  reservations of \<open>store\<close>, the state the transaction is then applied to. Then every
  run that replies with success has submitted one transaction; it holds the creation of
  the new reservation and the deletion of the booked reservation the query found, and
  applying it to \<open>store\<close> leaves exactly one booked reservation for that patient and
  schedule.
\<close>

theorem one_booked_reservation_after_booking:
  assumes run: "book locks w req = (Reply 200 (Success msg aid), locks', calls)"
    and acq: "acquire locks req = Inr (slotId, held)"
    and res: "resolve w req slotId = (Inr r, cs)"
    and sched: "r_scheduleRef r = Some scheduleRef"
    and faithful:
      "search_appointment w (existing_appt_url (r_patientRef r) (Some scheduleRef))
         = Some existingRes"
      "json existingRes
         = Some (search_result (filter (booked_for (r_patientRef r) scheduleRef) store))"
    and atmost: "length (filter (booked_for (r_patientRef r) scheduleRef) store) \<le> 1"
  shows "\<exists>es. submitted calls = [es]
           \<and> create_entry (new_appointment slotId r) \<in> set es
           \<and> (\<forall>old \<in> set (filter (booked_for (r_patientRef r) scheduleRef) store).
                 delete_entry (''Appointment/'' @ js_str (ap_id old)) \<in> set es)
           \<and> length (filter (booked_for (r_patientRef r) scheduleRef)
                        (apply_tx newId es store)) = 1"
proof -
  let ?P = "booked_for (r_patientRef r) scheduleRef"
  obtain x where g: "guarded w req slotId = (x, calls)"
    and x: "settle x = Reply 200 (Success msg aid)"
    using run book_acquired[OF acq, of w] by (cases "guarded w req slotId") auto
  from guarded_cases[OF g] res obtain prior m cs2 cs3 where
    rep: "replace_existing w r = (Inr (prior, m), cs2)"
    and calls: "calls = cs @ cs2 @ cs3"
    and ex: "execute w (prior @ new_entries slotId r) m = (x, cs3)"
  proof (elim disjE exE conjE, goal_cases)
    case (1 e)
    then show ?case by simp
  next
    case (2 r' cs' e cs2)
    then have "failure e" using fails_replace_existing[of w r e] by simp
    then show ?case using 2 x settle_failure by blast
  next
    case (3 r' cs' prior m cs2 cs3)
    then show ?case by simp
  qed
  have q: "submitted (snd (resolve w req slotId)) = []"
    "submitted (snd (replace_existing w r)) = []"
    "submitted (snd (execute w (prior @ new_entries slotId r) m))
       = [prior @ new_entries slotId r]" by simp_all
  have sub: "submitted calls = [prior @ new_entries slotId r]"
    using q res rep ex calls by simp
  have new: "?P ((new_appointment slotId r)\<lparr>ap_id := Some newId\<rparr>)"
    by (rule new_appointment_booked[OF sched])
  have srch: "search_appointment w (existing_appt_url (r_patientRef r) (r_scheduleRef r))
                = Some existingRes"
    using faithful(1) sched by simp
  consider (none) "filter ?P store = []" | (one) old where "filter ?P store = [old]"
    using atmost by (cases "filter ?P store") (auto simp: Suc_le_eq)
  then show ?thesis
  proof cases
    case none
    then have "\<not> positive (bd_total (search_result (filter ?P store)))"
      by (simp add: search_result_def positive_def)
    from replace_existing_none[OF rep srch faithful(2) this]
    have "prior = []" by simp
    then show ?thesis using sub none new
      by (simp add: apply_tx_def new_entries_def)
  next
    case one
    then have pos: "positive (bd_total (search_result (filter ?P store)))"
      by (simp add: search_result_def positive_def)
    from replace_existing_found[OF rep srch faithful(2) pos] one
    obtain oldSlotRef freed c where
      f: "free_old_slot w oldSlotRef = (Inr freed, c)"
        "prior = freed @ [delete_entry (''Appointment/'' @ js_str (ap_id old))]"
      by (auto simp: search_result_def)
    from free_old_slot_Inr[OF f(1)] consider "freed = []"
      | u s where "freed = [put_slot u s ''free'']" by blast
    then show ?thesis
    proof cases
      case 1
      then show ?thesis using sub one new f(2)
          filter_after_delete[OF one, of "\<lambda>a. ''Appointment/'' @ js_str (ap_id a)"]
        by (simp add: apply_tx_def new_entries_def)
    next
      case 2
      then show ?thesis using sub one new f(2)
          filter_after_delete[OF one, of "\<lambda>a. ''Appointment/'' @ js_str (ap_id a)"]
        by (simp add: apply_tx_def new_entries_def)
    qed
  qed
qed

text \<open>
  The claim as first stated fails. The key is the slot id, and the conflict query and
  the transaction are separate requests. Two runs of one person for slots s3 and s2 of
  the same schedule are both admitted, both read before either writes, and both
  succeed: before the second transaction one booked reservation exists for the patient
  and schedule, after it two.
\<close>

theorem interleaved_bookings_counterexample:
  "acquire Map.empty req_s3 = Inr (''s3'', [''s3'' \<mapsto> True])
   \<and> acquire [''s3'' \<mapsto> True] req_s2 = Inr (''s2'', [''s3'' \<mapsto> True, ''s2'' \<mapsto> True])
   \<and> book Map.empty clinic_racing req_s3 =
     (Reply 200 (Success BookingCreated (Some ''r3'')), Map.empty,
      [Fetch ''Slot/s3''] @ tl clinic_calls @ [Submit (new_entries ''s3'' resolved_s3)])
   \<and> book [''s3'' \<mapsto> True] clinic_racing req_s2 =
     (Reply 200 (Success BookingCreated (Some ''r2'')), [''s3'' \<mapsto> True],
      clinic_calls @ [Submit (new_entries ''s2'' clinic_resolved)])
   \<and> length (filter (booked_for ''Patient/p1'' ''Schedule/sch1'') []) = 0
   \<and> length (filter (booked_for ''Patient/p1'' ''Schedule/sch1'')
        (apply_tx ''r3'' (new_entries ''s3'' resolved_s3) [])) = 1
   \<and> length (filter (booked_for ''Patient/p1'' ''Schedule/sch1'')
        (apply_tx ''r2'' (new_entries ''s2'' clinic_resolved)
          (apply_tx ''r3'' (new_entries ''s3'' resolved_s3) []))) = 2"
  using run_racing_s3 run_racing_s2
  by (simp add: acquire_def truthy_def js_str_def Let_def clinic_defs apply_tx_def
      apply_entry_def booked_for_def list_of_def)

theorem one_booked_reservation_after_booking_witness:
  "length (filter (booked_for ''Patient/p1'' ''Schedule/sch1'') clinic_store) \<le> 1
   \<and> book Map.empty clinic req_s2 =
     (Reply 200 (Success BookingUpdated (Some ''r2'')), Map.empty,
      clinic_calls @ [Fetch ''Slot/s1'',
        Submit ([put_slot ''Slot/s1'' slot_s1 ''free'', delete_entry ''Appointment/r1'']
                @ new_entries ''s2'' clinic_resolved)])
   \<and> apply_tx ''r2'' ([put_slot ''Slot/s1'' slot_s1 ''free'', delete_entry ''Appointment/r1'']
                @ new_entries ''s2'' clinic_resolved) clinic_store
       = [appt_q7, (new_appointment ''s2'' clinic_resolved)\<lparr>ap_id := Some ''r2''\<rparr>]
   \<and> length (filter (booked_for ''Patient/p1'' ''Schedule/sch1'')
        (apply_tx ''r2'' ([put_slot ''Slot/s1'' slot_s1 ''free'',
                           delete_entry ''Appointment/r1'']
                          @ new_entries ''s2'' clinic_resolved) clinic_store)) = 1"
proof -
  let ?es = "[put_slot ''Slot/s1'' slot_s1 ''free'', delete_entry ''Appointment/r1'']
                @ new_entries ''s2'' clinic_resolved"
  have p: "r_patientRef clinic_resolved = ''Patient/p1''"
    and sched: "r_scheduleRef clinic_resolved = Some ''Schedule/sch1''"
    by (simp_all add: clinic_resolved_def)
  have found1: "filter (booked_for ''Patient/p1'' ''Schedule/sch1'') clinic_store = [appt_r1]"
    by (simp add: clinic_store_def booked_for_def list_of_def appt_r1_def appt_q7_def)
  have faithful:
    "search_appointment clinic
        (existing_appt_url (r_patientRef clinic_resolved) (Some ''Schedule/sch1''))
       = Some \<lparr>ok = True, statusText = ''OK'', json = Some (search_result [appt_r1])\<rparr>"
    "json \<lparr>ok = True, statusText = ''OK'', json = Some (search_result [appt_r1])\<rparr>
       = Some (search_result (filter (booked_for (r_patientRef clinic_resolved)
                 ''Schedule/sch1'') clinic_store))"
    by (simp_all add: p found1) (simp add: handler_defs clinic_defs)
  have atmost: "length (filter (booked_for (r_patientRef clinic_resolved) ''Schedule/sch1'')
                  clinic_store) \<le> 1"
    by (simp add: p found1)
  have sub: "submitted (clinic_calls @ [Fetch ''Slot/s1'', Submit ?es]) = [?es]"
    by (simp add: clinic_calls_def chain_calls_def search_call_def)
  from one_booked_reservation_after_booking[OF clinic_run acquire_s2 resolve_clinic sched faithful atmost, of "''r2''"]
  have one: "length (filter (booked_for ''Patient/p1'' ''Schedule/sch1'')
               (apply_tx ''r2'' ?es clinic_store)) = 1"
    by (simp add: sub p)
  have after: "apply_tx ''r2'' ?es clinic_store
       = [appt_q7, (new_appointment ''s2'' clinic_resolved)\<lparr>ap_id := Some ''r2''\<rparr>]"
    by (simp add: apply_tx_def apply_entry_def clinic_defs js_str_def)
  show ?thesis using one after clinic_run atmost by (simp add: p)
qed

text \<open>
  The amended claim says nothing of an answer to the conflict query that is not a search
  result. The handler does not test \<^verbatim>\<open>ok\<close> on this answer, as it does on the
  others, and reads an absent \<^verbatim>\<open>total\<close> as no reservation: when the search
  fails, the run books without deleting.
\<close>

lemma run_search_down:
  "book Map.empty clinic_search_down req_s2 =
     (Reply 200 (Success BookingCreated (Some ''r2'')), Map.empty,
      clinic_calls @ [Submit (new_entries ''s2'' clinic_resolved)])
   \<and> length (filter (booked_for ''Patient/p1'' ''Schedule/sch1'') clinic_store) = 1
   \<and> length (filter (booked_for ''Patient/p1'' ''Schedule/sch1'')
        (apply_tx ''r2'' (new_entries ''s2'' clinic_resolved) clinic_store)) = 2"
  by (simp add: handler_defs clinic_defs apply_tx_def apply_entry_def booked_for_def
      list_of_def)

text \<open>
  Claim C2. When the resolution chain ends in an exit (slot, schedule, role binding,
  organization reference or patient missing, or any other failure of steps 1 to 5), the
  run makes only the calls of the chain, none of them a transaction, and the key of the
  slot id is not held afterwards.
\<close>

theorem failed_resolution_submits_nothing:
  assumes "acquire locks req = Inr (slotId, held)"
    and "resolve w req slotId = (Inl x, cs)"
  shows "book locks w req = (settle (Inl x), locks, cs) \<and> submitted cs = []
         \<and> slotId \<notin> dom locks"
proof -
  have "submitted (snd (resolve w req slotId)) = []" by simp
  then have "submitted cs = []" using assms(2) by simp
  moreover have "guarded w req slotId = (Inl x, cs)"
    using assms(2) by (simp add: guarded_def)
  ultimately show ?thesis using assms(1)
    by (simp add: book_acquired[OF assms(1)] acquire_Inr)
qed

theorem failed_resolution_submits_nothing_witness:
  "acquire Map.empty req_s9 = Inr (''s9'', [''s9'' \<mapsto> True])
   \<and> resolve clinic req_s9 ''s9''
       = (Inl (Return (Reply 404 (Error SlotNotFound))), [Fetch ''Slot/s9''])
   \<and> book Map.empty clinic req_s9
       = (Reply 404 (Error SlotNotFound), Map.empty, [Fetch ''Slot/s9''])
   \<and> submitted [Fetch ''Slot/s9''] = []
   \<and> resolve clinic_no_role req_s2 ''s2''
       = (Inl (Throw (RoleNotFound ''Practitioner/dr1'')), take 3 chain_calls)
   \<and> book Map.empty clinic_no_role req_s2
       = (Reply 500 (Error (Thrown (RoleNotFound ''Practitioner/dr1''))), Map.empty,
          take 3 chain_calls)
   \<and> submitted (take 3 chain_calls) = []"
proof -
  have r: "resolve clinic req_s9 ''s9''
       = (Inl (Return (Reply 404 (Error SlotNotFound))), [Fetch ''Slot/s9''])"
    by (simp add: handler_defs clinic_defs)
  have r': "resolve clinic_no_role req_s2 ''s2''
       = (Inl (Throw (RoleNotFound ''Practitioner/dr1'')), take 3 chain_calls)"
    by (simp add: handler_defs clinic_defs)
  show ?thesis
    using failed_resolution_submits_nothing[OF acquire_s9 r]
      failed_resolution_submits_nothing[OF acquire_s2 r'] acquire_s9 r r'
    by (simp add: settle_def)
qed

text \<open>
  Claim C3, as amended. When the conflict search finds a booked reservation and the run
  submits a transaction, the deletion of that reservation comes before the creation of
  the new one. The update that sets the old slot to free comes right before the
  deletion exactly when the reservation's first slot reference is a non-empty string
  and the request for that slot succeeds; otherwise the transaction starts with the
  deletion.
\<close>

theorem prior_reservation_entries:
  assumes run: "book locks w req = (resp, locks', calls)"
    and sub: "es \<in> set (submitted calls)"
    and acq: "acquire locks req = Inr (slotId, held)"
    and res: "resolve w req slotId = (Inr r, cs)"
    and srch: "search_appointment w (existing_appt_url (r_patientRef r) (r_scheduleRef r))
                 = Some existingRes"
      "json existingRes = Some existing" "positive (bd_total existing)"
  shows "\<exists>old rest oldSlotRef rest'.
           bd_entry existing = Some (Some old # rest)
         \<and> ap_slot old = Some (Ref oldSlotRef # rest')
         \<and> ((es = delete_entry (''Appointment/'' @ js_str (ap_id old)) # new_entries slotId r
              \<and> (\<not> truthy oldSlotRef
                  \<or> (\<exists>oldSlotRes. get_old_slot w (js_str oldSlotRef) = Some oldSlotRes
                        \<and> \<not> ok oldSlotRes)))
            \<or> (\<exists>oldSlotRes oldSlot. truthy oldSlotRef
                  \<and> get_old_slot w (js_str oldSlotRef) = Some oldSlotRes \<and> ok oldSlotRes
                  \<and> json oldSlotRes = Some oldSlot
                  \<and> es = put_slot (js_str oldSlotRef) oldSlot ''free''
                         # delete_entry (''Appointment/'' @ js_str (ap_id old))
                         # new_entries slotId r))"
proof -
  from run sub obtain slotId' held' r' cs' prior msg cs2 where
    a: "acquire locks req = Inr (slotId', held')"
    and b: "resolve w req slotId' = (Inr r', cs')"
    and c: "replace_existing w r' = (Inr (prior, msg), cs2)"
    and d: "es = prior @ new_entries slotId' r'"
    by (rule submitted_run)
  have same: "slotId' = slotId" "r' = r" using a b acq res by simp_all
  from replace_existing_found[OF c[unfolded same] srch]
  obtain old rest oldSlotRef rest' freed c' where
    e: "bd_entry existing = Some (Some old # rest)"
      "ap_slot old = Some (Ref oldSlotRef # rest')"
      "free_old_slot w oldSlotRef = (Inr freed, c')"
      "prior = freed @ [delete_entry (''Appointment/'' @ js_str (ap_id old))]"
    by blast
  from free_old_slot_Inr[OF e(3)] d e(1,2,4) same show ?thesis
    by (auto simp: js_str_def truthy_def)
qed

text \<open>
  The claim as first stated fails: when the old slot cannot be fetched, the handler
  skips the update and still deletes the old reservation.
\<close>

theorem prior_slot_not_freed_counterexample:
  "search_appointment clinic_slot_gone
       (existing_appt_url (r_patientRef clinic_resolved) (r_scheduleRef clinic_resolved))
     = found (search_result [appt_r1])
   \<and> positive (bd_total (search_result [appt_r1]))
   \<and> ap_slot appt_r1 = Some [Ref (Some ''Slot/s1'')]
   \<and> submitted (snd (snd (book Map.empty clinic_slot_gone req_s2)))
       = [delete_entry ''Appointment/r1'' # new_entries ''s2'' clinic_resolved]
   \<and> map en_method (delete_entry ''Appointment/r1'' # new_entries ''s2'' clinic_resolved)
       = [DELETE, POST, PUT]
   \<and> map en_url (delete_entry ''Appointment/r1'' # new_entries ''s2'' clinic_resolved)
       = [''Appointment/r1'', ''Appointment'', ''Slot/s2'']"
  by (simp add: handler_defs clinic_defs)

theorem prior_reservation_entries_witness:
  "book Map.empty clinic req_s2 =
     (Reply 200 (Success BookingUpdated (Some ''r2'')), Map.empty,
      clinic_calls @ [Fetch ''Slot/s1'',
        Submit ([put_slot ''Slot/s1'' slot_s1 ''free'', delete_entry ''Appointment/r1'']
                @ new_entries ''s2'' clinic_resolved)])
   \<and> book Map.empty clinic_slot_gone req_s2 =
     (Reply 200 (Success BookingUpdated (Some ''r2'')), Map.empty,
      clinic_calls @ [Fetch ''Slot/s1'',
        Submit (delete_entry ''Appointment/r1'' # new_entries ''s2'' clinic_resolved)])
   \<and> (\<exists>old rest oldSlotRef rest'.
           bd_entry (search_result [appt_r1]) = Some (Some old # rest)
         \<and> ap_slot old = Some (Ref oldSlotRef # rest')
         \<and> get_old_slot clinic (js_str oldSlotRef) = found slot_s1
         \<and> get_old_slot clinic_slot_gone (js_str oldSlotRef) = not_found
         \<and> put_slot ''Slot/s1'' slot_s1 ''free''
             = put_slot (js_str oldSlotRef) slot_s1 ''free''
         \<and> delete_entry ''Appointment/r1''
             = delete_entry (''Appointment/'' @ js_str (ap_id old)))"
proof -
  let ?es = "[put_slot ''Slot/s1'' slot_s1 ''free'', delete_entry ''Appointment/r1'']
                @ new_entries ''s2'' clinic_resolved"
  have sub: "?es \<in> set (submitted (clinic_calls @ [Fetch ''Slot/s1'', Submit ?es]))"
    by (simp add: clinic_calls_def chain_calls_def search_call_def)
  have srch: "search_appointment clinic
       (existing_appt_url (r_patientRef clinic_resolved) (r_scheduleRef clinic_resolved))
     = Some \<lparr>ok = True, statusText = ''OK'', json = Some (search_result [appt_r1])\<rparr>"
    "json \<lparr>ok = True, statusText = ''OK'', json = Some (search_result [appt_r1])\<rparr>
     = Some (search_result [appt_r1])"
    "positive (bd_total (search_result [appt_r1]))"
    by (simp_all add: handler_defs clinic_defs)
  from prior_reservation_entries[OF clinic_run sub acquire_s2 resolve_clinic srch]
  have "\<exists>old rest oldSlotRef rest'.
           bd_entry (search_result [appt_r1]) = Some (Some old # rest)
         \<and> ap_slot old = Some (Ref oldSlotRef # rest')" by blast
  then have "\<exists>old rest oldSlotRef rest'.
           bd_entry (search_result [appt_r1]) = Some (Some old # rest)
         \<and> ap_slot old = Some (Ref oldSlotRef # rest')
         \<and> get_old_slot clinic (js_str oldSlotRef) = found slot_s1
         \<and> get_old_slot clinic_slot_gone (js_str oldSlotRef) = not_found
         \<and> put_slot ''Slot/s1'' slot_s1 ''free''
             = put_slot (js_str oldSlotRef) slot_s1 ''free''
         \<and> delete_entry ''Appointment/r1''
             = delete_entry (''Appointment/'' @ js_str (ap_id old))"
    by (auto simp: handler_defs clinic_defs)
  then show ?thesis using clinic_run run_slot_gone by simp
qed

text \<open>
  Claim C4, as amended. Once the key is taken and the caller is known: a slot, a
  schedule or a patient that is not found gives a 404 with its own reason; an empty
  role search (\<open>total = 0\<close>) is thrown and gives a 500 that names the acting party; a
  rejected transaction and a result without a created entry give a 500.
\<close>

theorem failure_classes:
  assumes acq: "acquire locks req = Inr (slotId, held)"
    and auth: "authenticate w req = (Inr personId, c0)"
  shows
    "(get_slot w (''Slot/'' @ slotId) = Some slotRes \<and> \<not> ok slotRes
        \<longrightarrow> fst (book locks w req) = Reply 404 (Error SlotNotFound))
   \<and> (fetch_new_slot w slotId = (Inr newSlot, c1)
        \<and> sl_schedule newSlot = Some (Ref scheduleRef)
        \<and> get_schedule w (js_str scheduleRef) = Some scheduleRes \<and> \<not> ok scheduleRes
        \<longrightarrow> fst (book locks w req) = Reply 404 (Error ScheduleNotFound))
   \<and> (fetch_new_slot w slotId = (Inr newSlot, c1)
        \<and> fetch_schedule w newSlot = (Inr (scheduleRef, Some a), c2)
        \<and> startsWith a ''Practitioner/''
        \<and> search_role w (role_search_url a) = Some roleRes \<and> ok roleRes
        \<and> json roleRes = Some roles \<and> bd_total roles = Some 0
        \<longrightarrow> fst (book locks w req) = Reply 500 (Error (Thrown (RoleNotFound a))))
   \<and> (fetch_new_slot w slotId = (Inr newSlot, c1)
        \<and> fetch_schedule w newSlot = (Inr (scheduleRef, Some a), c2)
        \<and> startsWith a ''Practitioner/''
        \<and> find_organization w a = (Inr organizationId, c3)
        \<and> search_patient w (patient_search_url personId organizationId) = Some patientRes
        \<and> ok patientRes \<and> json patientRes = Some patients
        \<and> (bd_total patients = None \<or> bd_total patients = Some 0)
        \<longrightarrow> fst (book locks w req) = Reply 404 (Error PatientNotFound))
   \<and> (resolve w req slotId = (Inr r, cs)
        \<and> replace_existing w r = (Inr (prior, msg), cs2)
        \<and> post_transaction w (prior @ new_entries slotId r) = Some txRes \<and> \<not> ok txRes
        \<longrightarrow> fst (book locks w req)
              = Reply 500 (Error (Thrown (TransactionFailed (statusText txRes)))))
   \<and> (resolve w req slotId = (Inr r, cs)
        \<and> replace_existing w r = (Inr (prior, msg), cs2)
        \<and> post_transaction w (prior @ new_entries slotId r) = Some txRes \<and> ok txRes
        \<and> json txRes = Some result \<and> tr_entry result = Some results
        \<and> find_created results = Inr None
        \<longrightarrow> fst (book locks w req) = Reply 500 (Error (Thrown CreatedEntryMissing)))"
proof (intro conjI impI; (elim conjE)?)
  assume "get_slot w (''Slot/'' @ slotId) = Some slotRes" "\<not> ok slotRes"
  then have "fst (resolve w req slotId) = Inl (Return (Reply 404 (Error SlotNotFound)))"
    using auth by (simp add: resolve_def fetch_new_slot_def fetch_def reply_def)
  from reply_of_exit[OF acq this]
  show "fst (book locks w req) = Reply 404 (Error SlotNotFound)" by (simp add: settle_def)
next
  assume "fetch_new_slot w slotId = (Inr newSlot, c1)"
    "sl_schedule newSlot = Some (Ref scheduleRef)"
    "get_schedule w (js_str scheduleRef) = Some scheduleRes" "\<not> ok scheduleRes"
  then have "fst (resolve w req slotId) = Inl (Return (Reply 404 (Error ScheduleNotFound)))"
    using auth by (simp add: resolve_def fetch_schedule_def fetch_def reply_def)
  from reply_of_exit[OF acq this]
  show "fst (book locks w req) = Reply 404 (Error ScheduleNotFound)" by (simp add: settle_def)
next
  assume s: "fetch_new_slot w slotId = (Inr newSlot, c1)"
    "fetch_schedule w newSlot = (Inr (scheduleRef, Some a), c2)"
    and "startsWith a ''Practitioner/''"
    "search_role w (role_search_url a) = Some roleRes" "ok roleRes"
    "json roleRes = Some roles" "bd_total roles = Some 0"
  then have "fst (resolve w req slotId) = Inl (Throw (RoleNotFound a))"
    by (simp add: resolve_steps[OF auth s] require_practitioner_def find_organization_def
        fetch_def read_json_def pure_def throw_def split: prod.splits)
  from reply_of_exit[OF acq this]
  show "fst (book locks w req) = Reply 500 (Error (Thrown (RoleNotFound a)))"
    by (simp add: settle_def)
next
  assume s: "fetch_new_slot w slotId = (Inr newSlot, c1)"
    "fetch_schedule w newSlot = (Inr (scheduleRef, Some a), c2)"
    and "startsWith a ''Practitioner/''"
    "find_organization w a = (Inr organizationId, c3)"
    "search_patient w (patient_search_url personId organizationId) = Some patientRes"
    "ok patientRes" "json patientRes = Some patients"
    "bd_total patients = None \<or> bd_total patients = Some 0"
  then have "fst (resolve w req slotId) = Inl (Return (Reply 404 (Error PatientNotFound)))"
    by (auto simp: resolve_steps[OF auth s] require_practitioner_def find_patient_def
        fetch_def read_json_def pure_def reply_def split: prod.splits)
  from reply_of_exit[OF acq this]
  show "fst (book locks w req) = Reply 404 (Error PatientNotFound)" by (simp add: settle_def)
next
  assume "resolve w req slotId = (Inr r, cs)"
    "replace_existing w r = (Inr (prior, msg), cs2)"
    and t: "post_transaction w (prior @ new_entries slotId r) = Some txRes" "\<not> ok txRes"
  from reply_of_execute[OF acq this(1,2)] t
  show "fst (book locks w req)
        = Reply 500 (Error (Thrown (TransactionFailed (statusText txRes))))"
    by (simp add: execute_def throw_def settle_def)
next
  assume "resolve w req slotId = (Inr r, cs)"
    "replace_existing w r = (Inr (prior, msg), cs2)"
    and t: "post_transaction w (prior @ new_entries slotId r) = Some txRes" "ok txRes"
      "json txRes = Some result" "tr_entry result = Some results"
      "find_created results = Inr None"
  from reply_of_execute[OF acq this(1,2)] t
  show "fst (book locks w req) = Reply 500 (Error (Thrown CreatedEntryMissing))"
    by (simp add: execute_def read_json_def pure_def throw_def settle_def)
qed

text \<open>
  The claim as first stated fails: an empty role search is answered with a 500, which
  is not a client-class reply.
\<close>

theorem empty_role_search_counterexample:
  "search_role clinic_no_role (role_search_url ''Practitioner/dr1'') = found (search_result [])
   \<and> bd_total (search_result ([] :: practitioner_role list)) = Some 0
   \<and> fst (book Map.empty clinic_no_role req_s2)
       = Reply 500 (Error (Thrown (RoleNotFound ''Practitioner/dr1'')))
   \<and> \<not> client_class (fst (book Map.empty clinic_no_role req_s2))
   \<and> server_class (fst (book Map.empty clinic_no_role req_s2))"
  by (simp add: handler_defs clinic_defs client_class_def server_class_def)

theorem failure_classes_witness:
  "fst (book Map.empty clinic req_s9) = Reply 404 (Error SlotNotFound)
   \<and> fst (book Map.empty clinic_no_schedule req_s2) = Reply 404 (Error ScheduleNotFound)
   \<and> fst (book Map.empty clinic_no_role req_s2)
       = Reply 500 (Error (Thrown (RoleNotFound ''Practitioner/dr1'')))
   \<and> fst (book Map.empty clinic_no_patient req_s2) = Reply 404 (Error PatientNotFound)
   \<and> fst (book Map.empty clinic_tx_rejected req_s2)
       = Reply 500 (Error (Thrown (TransactionFailed ''Bad Request'')))
   \<and> fst (book Map.empty clinic_tx_silent req_s2)
       = Reply 500 (Error (Thrown CreatedEntryMissing))"
proof (intro conjI)
  have f: "get_slot clinic (''Slot/'' @ ''s9'')
          = Some \<lparr>ok = False, statusText = ''Not Found'', json = None\<rparr>"
    "\<not> ok \<lparr>ok = False, statusText = ''Not Found'', json = (None :: slot option)\<rparr>"
    by (simp_all add: clinic_defs)
  show "fst (book Map.empty clinic req_s9) = Reply 404 (Error SlotNotFound)"
    by (rule failure_classes[OF acquire_s9 auth_s9, THEN conjunct1, THEN mp]) (intro conjI; rule f)
next
  have a: "authenticate clinic_no_schedule req_s2 = (Inr (Some ''u1''), [])"
    by (simp add: handler_defs clinic_defs)
  have f: "fetch_new_slot clinic_no_schedule ''s2'' = (Inr slot_s2, [Fetch ''Slot/s2''])"
    "sl_schedule slot_s2 = Some (Ref (Some ''Schedule/sch1''))"
    "get_schedule clinic_no_schedule (js_str (Some ''Schedule/sch1''))
       = Some \<lparr>ok = False, statusText = ''Not Found'', json = None\<rparr>"
    "\<not> ok \<lparr>ok = False, statusText = ''Not Found'', json = (None :: schedule option)\<rparr>"
    by (simp_all add: handler_defs clinic_defs)
  show "fst (book Map.empty clinic_no_schedule req_s2) = Reply 404 (Error ScheduleNotFound)"
    by (rule failure_classes[OF acquire_s2 a, THEN conjunct2, THEN conjunct1, THEN mp])
      (intro conjI; rule f)
next
  have a: "authenticate clinic_no_role req_s2 = (Inr (Some ''u1''), [])"
    by (simp add: handler_defs clinic_defs)
  have f: "fetch_new_slot clinic_no_role ''s2'' = (Inr slot_s2, [Fetch ''Slot/s2''])"
    "fetch_schedule clinic_no_role slot_s2
       = (Inr (Some ''Schedule/sch1'', Some ''Practitioner/dr1''), [Fetch ''Schedule/sch1''])"
    "startsWith ''Practitioner/dr1'' ''Practitioner/''"
    "search_role clinic_no_role (role_search_url ''Practitioner/dr1'')
       = Some \<lparr>ok = True, statusText = ''OK'', json = Some (search_result [])\<rparr>"
    "ok \<lparr>ok = True, statusText = ''OK'',
         json = Some (search_result ([] :: practitioner_role list))\<rparr>"
    "json \<lparr>ok = True, statusText = ''OK'',
         json = Some (search_result ([] :: practitioner_role list))\<rparr>
       = Some (search_result [])"
    "bd_total (search_result ([] :: practitioner_role list)) = Some 0"
    by (simp_all add: handler_defs clinic_defs)
  show "fst (book Map.empty clinic_no_role req_s2)
       = Reply 500 (Error (Thrown (RoleNotFound ''Practitioner/dr1'')))"
    by (rule failure_classes[OF acquire_s2 a, THEN conjunct2, THEN conjunct2, THEN conjunct1, THEN mp])
      (intro conjI; rule f)
next
  have a: "authenticate clinic_no_patient req_s2 = (Inr (Some ''u1''), [])"
    by (simp add: handler_defs clinic_defs)
  have f: "fetch_new_slot clinic_no_patient ''s2'' = (Inr slot_s2, [Fetch ''Slot/s2''])"
    "fetch_schedule clinic_no_patient slot_s2
       = (Inr (Some ''Schedule/sch1'', Some ''Practitioner/dr1''), [Fetch ''Schedule/sch1''])"
    "startsWith ''Practitioner/dr1'' ''Practitioner/''"
    "find_organization clinic_no_patient ''Practitioner/dr1''
       = (Inr (Some ''org1''), [Fetch ''PractitionerRole?practitioner=Practitioner%2Fdr1''])"
    "search_patient clinic_no_patient (patient_search_url (Some ''u1'') (Some ''org1''))
       = Some \<lparr>ok = True, statusText = ''OK'', json = Some (search_result [])\<rparr>"
    "ok \<lparr>ok = True, statusText = ''OK'', json = Some (search_result ([] :: patient list))\<rparr>"
    "json \<lparr>ok = True, statusText = ''OK'', json = Some (search_result ([] :: patient list))\<rparr>
       = Some (search_result [])"
    "bd_total (search_result ([] :: patient list)) = None
     \<or> bd_total (search_result ([] :: patient list)) = Some 0"
    by (simp_all add: handler_defs clinic_defs)
  show "fst (book Map.empty clinic_no_patient req_s2) = Reply 404 (Error PatientNotFound)"
    by (rule failure_classes[OF acquire_s2 a, THEN conjunct2, THEN conjunct2, THEN conjunct2,
                THEN conjunct1, THEN mp])
      (intro conjI; rule f)
next
  have a: "authenticate clinic_tx_rejected req_s2 = (Inr (Some ''u1''), [])"
    by (simp add: handler_defs clinic_defs)
  have f: "resolve clinic_tx_rejected req_s2 ''s2'' = (Inr clinic_resolved, chain_calls)"
    "replace_existing clinic_tx_rejected clinic_resolved =
       (Inr ([put_slot ''Slot/s1'' slot_s1 ''free'', delete_entry ''Appointment/r1''],
             BookingUpdated), [search_call, Fetch ''Slot/s1''])"
    "post_transaction clinic_tx_rejected
        ([put_slot ''Slot/s1'' slot_s1 ''free'', delete_entry ''Appointment/r1'']
          @ new_entries ''s2'' clinic_resolved)
       = Some \<lparr>ok = False, statusText = ''Bad Request'', json = None\<rparr>"
    "\<not> ok \<lparr>ok = False, statusText = ''Bad Request'', json = (None :: tx_result option)\<rparr>"
    by (simp_all add: handler_defs clinic_defs)
  have "fst (book Map.empty clinic_tx_rejected req_s2)
       = Reply 500 (Error (Thrown (TransactionFailed
           (statusText \<lparr>ok = False, statusText = ''Bad Request'',
                        json = (None :: tx_result option)\<rparr>))))"
    by (rule failure_classes[OF acquire_s2 a, THEN conjunct2, THEN conjunct2, THEN conjunct2,
                THEN conjunct2, THEN conjunct1, THEN mp])
      (intro conjI; rule f)
  then show "fst (book Map.empty clinic_tx_rejected req_s2)
       = Reply 500 (Error (Thrown (TransactionFailed ''Bad Request'')))"
    by simp
next
  have a: "authenticate clinic_tx_silent req_s2 = (Inr (Some ''u1''), [])"
    by (simp add: handler_defs clinic_defs)
  have f: "resolve clinic_tx_silent req_s2 ''s2'' = (Inr clinic_resolved, chain_calls)"
    "replace_existing clinic_tx_silent clinic_resolved =
       (Inr ([put_slot ''Slot/s1'' slot_s1 ''free'', delete_entry ''Appointment/r1''],
             BookingUpdated), [search_call, Fetch ''Slot/s1''])"
    "post_transaction clinic_tx_silent
        ([put_slot ''Slot/s1'' slot_s1 ''free'', delete_entry ''Appointment/r1'']
          @ new_entries ''s2'' clinic_resolved)
       = Some \<lparr>ok = True, statusText = ''OK'', json = Some
           \<lparr>tr_entry = Some [Some \<lparr>rs_status = Some ''200 OK'', rs_location = None\<rparr>]\<rparr>\<rparr>"
    "ok \<lparr>ok = True, statusText = ''OK'', json = Some
           \<lparr>tr_entry = Some [Some \<lparr>rs_status = Some ''200 OK'', rs_location = None\<rparr>]\<rparr>\<rparr>"
    "json \<lparr>ok = True, statusText = ''OK'', json = Some
           \<lparr>tr_entry = Some [Some \<lparr>rs_status = Some ''200 OK'', rs_location = None\<rparr>]\<rparr>\<rparr>
       = Some \<lparr>tr_entry = Some [Some \<lparr>rs_status = Some ''200 OK'', rs_location = None\<rparr>]\<rparr>"
    "tr_entry \<lparr>tr_entry = Some [Some \<lparr>rs_status = Some ''200 OK'', rs_location = None\<rparr>]\<rparr>
       = Some [Some \<lparr>rs_status = Some ''200 OK'', rs_location = None\<rparr>]"
    "find_created [Some \<lparr>rs_status = Some ''200 OK'', rs_location = None\<rparr>] = Inr None"
    by (simp_all add: handler_defs clinic_defs)
  show "fst (book Map.empty clinic_tx_silent req_s2)
       = Reply 500 (Error (Thrown CreatedEntryMissing))"
    by (rule failure_classes[OF acquire_s2 a, THEN conjunct2, THEN conjunct2, THEN conjunct2,
                THEN conjunct2, THEN conjunct2, THEN mp])
      (intro conjI; rule f)
qed

text \<open>
  Claim C5. Every transaction a run submits ends with the creation of the new
  reservation and then the update of the target slot to busy. The reservation is booked,
  bound to the target slot and the resolved schedule, carries the resolved patient and
  the acting party, both accepted, and has the start and end of the target slot.
\<close>

theorem new_booking_entries:
  assumes "book locks w req = (resp, locks', calls)"
    and "es \<in> set (submitted calls)"
  shows "\<exists>slotId held r cs prior a.
           acquire locks req = Inr (slotId, held)
         \<and> resolve w req slotId = (Inr r, cs)
         \<and> es = prior @
             [\<lparr>en_resource = Some (AppointmentResource a), en_method = POST,
               en_url = ''Appointment''\<rparr>,
              \<lparr>en_resource = Some (SlotResource ((r_newSlot r)\<lparr>sl_status := Some ''busy''\<rparr>)),
               en_method = PUT, en_url = ''Slot/'' @ slotId\<rparr>]
         \<and> ap_status a = Some ''booked''
         \<and> ap_slot a = Some [Ref (Some (''Slot/'' @ slotId))]
         \<and> ap_supportingInformation a = Some [Ref (r_scheduleRef r)]
         \<and> ap_participant a = Some
             [\<lparr>pa_actor = Some (Ref (Some (r_patientRef r))), pa_status = Some ''accepted''\<rparr>,
              \<lparr>pa_actor = Some (Ref (Some (r_actorRef r))), pa_status = Some ''accepted''\<rparr>]
         \<and> ap_start a = sl_start (r_newSlot r)
         \<and> ap_end a = sl_end (r_newSlot r)"
proof -
  from assms obtain slotId held r cs prior where
    "acquire locks req = Inr (slotId, held)" "resolve w req slotId = (Inr r, cs)"
    "es = prior @ new_entries slotId r"
    by (rule submitted_run)
  then show ?thesis
    by (simp add: new_entries_def create_entry_def put_slot_def new_appointment_def)
qed

theorem new_booking_entries_witness:
  "book Map.empty clinic req_s2 =
     (Reply 200 (Success BookingUpdated (Some ''r2'')), Map.empty,
      clinic_calls @ [Fetch ''Slot/s1'',
        Submit ([put_slot ''Slot/s1'' slot_s1 ''free'', delete_entry ''Appointment/r1'']
                @ new_entries ''s2'' clinic_resolved)])
   \<and> (\<exists>slotId held r cs prior a.
           acquire Map.empty req_s2 = Inr (slotId, held)
         \<and> resolve clinic req_s2 slotId = (Inr r, cs)
         \<and> [put_slot ''Slot/s1'' slot_s1 ''free'', delete_entry ''Appointment/r1'']
                @ new_entries ''s2'' clinic_resolved = prior @
             [\<lparr>en_resource = Some (AppointmentResource a), en_method = POST,
               en_url = ''Appointment''\<rparr>,
              \<lparr>en_resource = Some (SlotResource ((r_newSlot r)\<lparr>sl_status := Some ''busy''\<rparr>)),
               en_method = PUT, en_url = ''Slot/'' @ slotId\<rparr>]
         \<and> ap_status a = Some ''booked''
         \<and> ap_slot a = Some [Ref (Some (''Slot/'' @ slotId))]
         \<and> ap_supportingInformation a = Some [Ref (r_scheduleRef r)]
         \<and> ap_participant a = Some
             [\<lparr>pa_actor = Some (Ref (Some (r_patientRef r))), pa_status = Some ''accepted''\<rparr>,
              \<lparr>pa_actor = Some (Ref (Some (r_actorRef r))), pa_status = Some ''accepted''\<rparr>]
         \<and> ap_start a = sl_start (r_newSlot r)
         \<and> ap_end a = sl_end (r_newSlot r))"
proof -
  have "[put_slot ''Slot/s1'' slot_s1 ''free'', delete_entry ''Appointment/r1'']
          @ new_entries ''s2'' clinic_resolved
        \<in> set (submitted (clinic_calls @ [Fetch ''Slot/s1'',
        Submit ([put_slot ''Slot/s1'' slot_s1 ''free'', delete_entry ''Appointment/r1'']
                @ new_entries ''s2'' clinic_resolved)]))"
    by (simp add: clinic_calls_def chain_calls_def search_call_def
  clinic_results_def appt_q7_def clinic_store_def slot_s3_def req_s3_def clinic_racing_def
  clinic_search_down_def put_created_results_def clinic_put_created_def)
  from new_booking_entries[OF clinic_run this] clinic_run show ?thesis by blast
qed




text \<open>
  Claim C7. Once a run has taken the key of its slot id, the key is gone from the lock
  map the run leaves behind, whatever the server and the token check answer: a normal
  reply, an early return, a throw and a fault (a rejected fetch, an unreadable body, a
  member read on an absent value) all end in the \<^verbatim>\<open>finally\<close> block.
\<close>

theorem gate_released_on_exit:
  assumes "acquire locks req = Inr (slotId, held)"
  shows "slotId \<in> dom held \<and> fst (snd (book locks w req)) = release held slotId
         \<and> slotId \<notin> dom (fst (snd (book locks w req)))"
  using assms release_acquired[OF assms]
  by (auto simp: book_acquired[OF assms] acquire_Inr)

theorem gate_released_on_exit_witness:
  "acquire Map.empty req_s2 = Inr (''s2'', [''s2'' \<mapsto> True])
   \<and> ''s2'' \<in> dom [''s2'' \<mapsto> True]
   \<and> fst (snd (book Map.empty clinic req_s2)) = Map.empty"
  using gate_released_on_exit[OF acquire_s2, of clinic] acquire_s2 by (simp add: release_def)

text \<open>
  Claim C8. When the key of the requested slot id is already held, the run answers 409
  (the slot is being processed) at once: the lock map is returned as it was and no call
  to the server is made.
\<close>

theorem held_slot_is_rejected:
  assumes "reachable locks" and "body_slotId req = Some slotId" and "slotId \<in> dom locks"
  shows "book locks w req = (Reply 409 (Error SlotBeingProcessed), locks, [])"
proof -
  have "slotId \<noteq> []" using assms reachable_no_empty_key by blast
  then show ?thesis using assms
    by (simp add: book_def acquire_def truthy_def js_str_def)
qed

theorem held_slot_is_rejected_witness:
  "reachable [''s2'' \<mapsto> True] \<and> body_slotId req_s2 = Some ''s2''
   \<and> ''s2'' \<in> dom [''s2'' \<mapsto> True]
   \<and> book [''s2'' \<mapsto> True] clinic req_s2
       = (Reply 409 (Error SlotBeingProcessed), [''s2'' \<mapsto> True], [])"
proof -
  have r: "reachable [''s2'' \<mapsto> True]"
    by (rule reachable.enter[OF reachable.start acquire_s2])
  have b: "body_slotId req_s2 = Some ''s2''" by (simp add: req_s2_def)
  have d: "''s2'' \<in> dom [''s2'' \<mapsto> True]" by simp
  show ?thesis using r b d held_slot_is_rejected[OF r b d, of clinic] by simp
qed

text \<open>
  Claim C9. When the first actor reference of the resolved schedule does not start with
  \<^verbatim>\<open>Practitioner/\<close>, the run answers 500 with the reason that the actor is not a
  practitioner, after the requests for the slot and the schedule only: no transaction is
  submitted.
\<close>

theorem non_practitioner_actor_fails:
  assumes "acquire locks req = Inr (slotId, held)"
    and "authenticate w req = (Inr personId, c0)"
    and "fetch_new_slot w slotId = (Inr newSlot, c1)"
    and "fetch_schedule w newSlot = (Inr (scheduleRef, Some a), c2)"
    and "\<not> startsWith a ''Practitioner/''"
  shows "book locks w req
           = (Reply 500 (Error (Thrown (ActorNotPractitioner a))), locks, c0 @ c1 @ c2)
         \<and> submitted (c0 @ c1 @ c2) = []"
proof -
  have r: "resolve w req slotId = (Inl (Throw (ActorNotPractitioner a)), c0 @ c1 @ c2)"
    using assms(5)
    by (simp add: resolve_steps[OF assms(2,3,4)] require_practitioner_def throw_def)
  have "submitted (snd (resolve w req slotId)) = []" by simp
  then have q: "submitted (c0 @ c1 @ c2) = []" using r by simp
  have "guarded w req slotId = (Inl (Throw (ActorNotPractitioner a)), c0 @ c1 @ c2)"
    using r by (simp add: guarded_def)
  then show ?thesis using q by (simp add: book_acquired[OF assms(1)] settle_def)
qed

theorem non_practitioner_actor_fails_witness:
  "acquire Map.empty req_s2 = Inr (''s2'', [''s2'' \<mapsto> True])
   \<and> fetch_schedule clinic_room slot_s2
       = (Inr (Some ''Schedule/sch1'', Some ''Location/room1''), [Fetch ''Schedule/sch1''])
   \<and> \<not> startsWith ''Location/room1'' ''Practitioner/''
   \<and> book Map.empty clinic_room req_s2
       = (Reply 500 (Error (Thrown (ActorNotPractitioner ''Location/room1''))), Map.empty,
          [Fetch ''Slot/s2'', Fetch ''Schedule/sch1''])"
proof -
  have a: "authenticate clinic_room req_s2 = (Inr (Some ''u1''), [])"
    by (simp add: handler_defs clinic_defs)
  have b: "fetch_new_slot clinic_room ''s2'' = (Inr slot_s2, [Fetch ''Slot/s2''])"
    by (simp add: handler_defs clinic_defs)
  have c: "fetch_schedule clinic_room slot_s2
       = (Inr (Some ''Schedule/sch1'', Some ''Location/room1''), [Fetch ''Schedule/sch1''])"
    by (simp add: handler_defs clinic_defs)
  have d: "\<not> startsWith ''Location/room1'' ''Practitioner/''"
    by (simp add: startsWith_def)
  show ?thesis using non_practitioner_actor_fails[OF acquire_s2 a b c d] acquire_s2 c d by simp
qed



end
